theory Spec2Isabelle
  imports Main "HOL-Library.Sublist"
begin

section \<open>JavaScript values\<close>

text \<open>
  The values the worker reads out of parsed JSON bodies and interpolates into its
  template: \<open>undefined\<close>, \<open>null\<close>, booleans, numbers, strings, arrays and plain objects.
  A number carries an integer value: the worker tests the numbers it reads for truthiness
  only, where a fraction behaves like any non-zero integer, and the numbers it
  interpolates are integers. A string is its sequence of code units; an object is the
  list of its own properties.
\<close>

datatype jsval = Undefined | JNull | JBool bool | JNum int | JStr string
  | JArr "jsval list" | JObj "(string \<times> jsval) list"

datatype error = TypeError | NetworkError | SyntaxError | OperationError

text \<open>ToBoolean, as used by \<open>if (x)\<close> and \<open>x && y\<close>.\<close>

fun truthy :: "jsval \<Rightarrow> bool" where
  "truthy Undefined = False"
| "truthy JNull = False"
| "truthy (JBool b) = b"
| "truthy (JNum n) = (n \<noteq> 0)"
| "truthy (JStr s) = (s \<noteq> [])"
| "truthy (JArr xs) = True"
| "truthy (JObj ps) = True"

text \<open>
  Property access \<open>v.k\<close> for the names the worker reads (\<open>session_details\<close>, \<open>solved\<close>,
  \<open>status\<close>, \<open>indicator\<close>, \<open>encodedData\<close>), none of which is a built-in property of a
  primitive or an array: reading from \<open>undefined\<close> or \<open>null\<close> throws a TypeError, an object
  gives its own property or \<open>undefined\<close>, everything else gives \<open>undefined\<close>.
\<close>

fun getProp :: "jsval \<Rightarrow> string \<Rightarrow> error + jsval" where
  "getProp Undefined k = Inl TypeError"
| "getProp JNull k = Inl TypeError"
| "getProp (JObj ps) k = Inr (case map_of ps k of None \<Rightarrow> Undefined | Some v \<Rightarrow> v)"
| "getProp v k = Inr Undefined"

section \<open>Requests, responses and the network\<close>

text \<open>
  An incoming request as far as the worker looks at it: \<open>request.method\<close> (the field
  \<open>httpMethod\<close>), its URL and what \<open>request.headers.get('Cookie')\<close> returns (\<open>None\<close> for
  \<open>null\<close>).
\<close>

record request =
  httpMethod :: string
  url :: string
  cookieHeader :: "string option"

text \<open>
  A response of \<open>fetch\<close>: \<open>body\<close> is what \<open>text()\<close> resolves to, \<open>None\<close> when reading the
  body rejects, and \<open>json\<close> what \<open>json()\<close> resolves to, \<open>None\<close> when \<open>json()\<close> rejects (the
  body cannot be read or is not JSON).
\<close>

record response =
  status :: int
  headers :: "(string \<times> string) list"
  body :: "string option"
  json :: "jsval option"

text \<open>
  The three outbound calls of the worker: the POST to the verify endpoint (URL and the
  payload object that \<open>JSON.stringify\<close> serialises into the body), the GET of the status
  page, and the forwarding of the incoming request to the origin. A call either rejects (the
  \<open>await fetch(...)\<close> throws) or resolves to a response. The network answers a call
  depending on the calls made before it; the trace of calls is the state that the
  worker's functions thread through.
\<close>

datatype call = Post string jsval | Get string | Forward request

datatype fetched = Rejected | Resolved response

type_synonym network = "call list \<Rightarrow> call \<Rightarrow> fetched"

definition fetch :: "network \<Rightarrow> call \<Rightarrow> call list \<Rightarrow> fetched \<times> call list" where
  "fetch net c tr = (net tr c, tr @ [c])"

fun isVerifyCall :: "call \<Rightarrow> bool" where
  "isVerifyCall (Post u p) = True"
| "isVerifyCall c = False"

fun isStatusCall :: "call \<Rightarrow> bool" where
  "isStatusCall (Get u) = True"
| "isStatusCall c = False"

fun isOriginCall :: "call \<Rightarrow> bool" where
  "isOriginCall (Forward r) = True"
| "isOriginCall c = False"

definition verifyAttempts :: "call list \<Rightarrow> nat" where
  "verifyAttempts tr = length (filter isVerifyCall tr)"

definition healthChecks :: "call list \<Rightarrow> nat" where
  "healthChecks tr = length (filter isStatusCall tr)"

definition originFetches :: "call list \<Rightarrow> nat" where
  "originFetches tr = length (filter isOriginCall tr)"

section \<open>checkArkoseStatus\<close>

definition statusUrl :: string where
  "statusUrl = ''https://status.arkoselabs.com/api/v2/status.json''"

definition checkArkoseStatus :: "network \<Rightarrow> call list \<Rightarrow> bool \<times> call list" where
  "checkArkoseStatus net tr =
     (case fetch net (Get statusUrl) tr of
        (Rejected, tr') \<Rightarrow> (False, tr')
      | (Resolved healthResponse, tr') \<Rightarrow>
          (case json healthResponse of
             None \<Rightarrow> (False, tr')
           | Some healthJson \<Rightarrow>
               (case getProp healthJson ''status'' of
                  Inl e \<Rightarrow> (False, tr')
                | Inr st \<Rightarrow>
                    (case getProp st ''indicator'' of
                       Inl e \<Rightarrow> (False, tr')
                     | Inr indicator \<Rightarrow> (indicator \<noteq> JStr ''critical'', tr')))))"

section \<open>Numbers\<close>

text \<open>
  The numbers that the worker parses and counts with are integers held in IEEE doubles,
  or an infinity; NaN does not reach them, \<open>parseNumber\<close> replaces it by 0. \<open>toNumber\<close> is
  the double nearest to a mathematical integer, a tie going to the even mantissa:
  integers up to \<open>2^53\<close> in magnitude are exact, larger ones keep 53 significant bits, and
  what rounds to \<open>2^1024\<close> or beyond is an infinity. \<open>addOne\<close> is \<open>x + 1\<close> in double
  arithmetic.
\<close>

datatype number = Num int | PosInfinity | NegInfinity

fun bitLength :: "nat \<Rightarrow> nat" where
  "bitLength n = (if n = 0 then 0 else Suc (bitLength (n div 2)))"

declare bitLength.simps [simp del]

definition roundMagnitude :: "nat \<Rightarrow> nat" where
  "roundMagnitude m =
     (if m \<le> 2 ^ 53 then m
      else
        (let e = bitLength m - 53;
             q = m div 2 ^ e;
             r = m mod 2 ^ e;
             half = 2 ^ (e - 1)
         in (if half < r \<or> (r = half \<and> odd q) then q + 1 else q) * 2 ^ e))"

definition toNumber :: "int \<Rightarrow> number" where
  "toNumber z =
     (let m = roundMagnitude (nat \<bar>z\<bar>) in
      if 2 ^ 1024 \<le> m then (if z < 0 then NegInfinity else PosInfinity)
      else Num (if z < 0 then - int m else int m))"

definition addOne :: "number \<Rightarrow> number" where
  "addOne x =
     (case x of
        Num n \<Rightarrow> toNumber (n + 1)
      | PosInfinity \<Rightarrow> PosInfinity
      | NegInfinity \<Rightarrow> NegInfinity)"

text \<open>
  The values that a retry count started at 0 takes: adding 1 is exact up to \<open>2^53\<close>, and
  \<open>2^53 + 1\<close> is \<open>2^53\<close> again.
\<close>

definition retryCount :: "number \<Rightarrow> bool" where
  "retryCount x = (case x of Num k \<Rightarrow> 0 \<le> k \<and> k \<le> 2 ^ 53 | _ \<Rightarrow> False)"

section \<open>verifyArkoseToken\<close>

text \<open>
  The private key is the value of the environment variable, a string or \<open>undefined\<close>; the
  token is what the cookie extractor returned.
\<close>

record verifyStatus =
  verified :: bool
  arkoseStatus :: bool

definition verifyUrl :: "string \<Rightarrow> string" where
  "verifyUrl verifySubdomain =
     ''https://'' @ verifySubdomain @ ''.arkoselabs.com/api/v4/verify/''"

definition verifyCall :: "jsval \<Rightarrow> jsval \<Rightarrow> string \<Rightarrow> call" where
  "verifyCall token privateKey verifySubdomain =
     Post (verifyUrl verifySubdomain)
       (JObj [(''private_key'', privateKey), (''session_token'', token)])"

text \<open>
  The \<open>try\<close> block of \<open>verifyArkoseToken\<close>: it returns the verification status, or the
  error that sends control to the \<open>catch\<close> block.
\<close>

definition verifyAttempt ::
  "network \<Rightarrow> jsval \<Rightarrow> jsval \<Rightarrow> string \<Rightarrow> call list
     \<Rightarrow> (error + verifyStatus) \<times> call list" where
  "verifyAttempt net token privateKey verifySubdomain tr =
     (case fetch net (verifyCall token privateKey verifySubdomain) tr of
        (Rejected, tr') \<Rightarrow> (Inl NetworkError, tr')
      | (Resolved resp, tr') \<Rightarrow>
          (case json resp of
             None \<Rightarrow> (Inl SyntaxError, tr')
           | Some data \<Rightarrow>
               (case getProp data ''session_details'' of
                  Inl e \<Rightarrow> (Inl e, tr')
                | Inr session_details \<Rightarrow>
                    if truthy session_details then
                      (case getProp session_details ''solved'' of
                         Inl e \<Rightarrow> (Inl e, tr')
                       | Inr solved \<Rightarrow>
                           (Inr \<lparr>verified = truthy solved, arkoseStatus = True\<rparr>, tr'))
                    else (Inr \<lparr>verified = False, arkoseStatus = True\<rparr>, tr'))))"

text \<open>
  The retry chain. The recursion stops only on a successful attempt, an unhealthy
  platform, or \<open>currentRetry === verifyMaxRetryCount\<close>; the next retry count is
  \<open>currentRetry + 1\<close> in double arithmetic. A chain that never returns has the value
  \<open>None\<close>.
\<close>

partial_function (option) verifyArkoseToken ::
  "network \<Rightarrow> jsval \<Rightarrow> jsval \<Rightarrow> string \<Rightarrow> number \<Rightarrow> number \<Rightarrow> call list
     \<Rightarrow> (verifyStatus \<times> call list) option" where
  "verifyArkoseToken net token privateKey verifySubdomain verifyMaxRetryCount currentRetry tr =
     (case verifyAttempt net token privateKey verifySubdomain tr of
        (Inr result, tr') \<Rightarrow> Some (result, tr')
      | (Inl e, tr') \<Rightarrow>
          (case checkArkoseStatus net tr' of
             (healthy, tr'') \<Rightarrow>
               if healthy then
                 if currentRetry = verifyMaxRetryCount
                 then Some (\<lparr>verified = False, arkoseStatus = healthy\<rparr>, tr'')
                 else verifyArkoseToken net token privateKey verifySubdomain
                        verifyMaxRetryCount (addOne currentRetry) tr''
               else Some (\<lparr>verified = False, arkoseStatus = healthy\<rparr>, tr'')))"

declare verifyArkoseToken.simps [code]

text \<open>What the specification reads out of a verify response: \<open>session_details.solved\<close>.\<close>

definition solvedField :: "jsval \<Rightarrow> bool" where
  "solvedField data =
     (case data of
        JObj ps \<Rightarrow>
          (case map_of ps ''session_details'' of
             Some (JObj qs) \<Rightarrow>
               (case map_of qs ''solved'' of Some v \<Rightarrow> truthy v | None \<Rightarrow> False)
           | _ \<Rightarrow> False)
      | _ \<Rightarrow> False)"

section \<open>Networks used as concrete instances\<close>

definition jsonResponse :: "jsval \<Rightarrow> response" where
  "jsonResponse v = \<lparr>status = 200, headers = [], body = Some [], json = Some v\<rparr>"

definition indicatorJson :: "string \<Rightarrow> jsval" where
  "indicatorJson i = JObj [(''status'', JObj [(''indicator'', JStr i)])]"

text \<open>Verify endpoint unreachable, status page reports no incident.\<close>

definition verifyDownNet :: network where
  "verifyDownNet tr c =
     (case c of Get u \<Rightarrow> Resolved (jsonResponse (indicatorJson ''none'')) | _ \<Rightarrow> Rejected)"

text \<open>Verify endpoint unreachable, status page reports a critical incident.\<close>

definition outageNet :: network where
  "outageNet tr c =
     (case c of Get u \<Rightarrow> Resolved (jsonResponse (indicatorJson ''critical'')) | _ \<Rightarrow> Rejected)"

text \<open>Verify endpoint answers with the JSON body \<open>v\<close>, status page reports no incident.\<close>

definition verifyAnswers :: "jsval \<Rightarrow> network" where
  "verifyAnswers v tr c =
     (case c of
        Post u p \<Rightarrow> Resolved (jsonResponse v)
      | Get u \<Rightarrow> Resolved (jsonResponse (indicatorJson ''none''))
      | Forward r \<Rightarrow> Rejected)"

section \<open>Strings\<close>

text \<open>
  \<open>s.includes(k)\<close>: \<open>k\<close> occurs in \<open>s\<close> as a contiguous run (the empty string occurs
  in every string).
\<close>

fun jsIncludes :: "string \<Rightarrow> string \<Rightarrow> bool" where
  "jsIncludes [] k = (k = [])"
| "jsIncludes (c # cs) k = (prefix k (c # cs) \<or> jsIncludes cs k)"

text \<open>
  \<open>s.split(sep)\<close>: the string is scanned from the left and cut at each occurrence of the
  separator, the scan resuming behind it; \<open>acc\<close> is the piece being collected. With the
  empty separator the pieces are the single code units.
\<close>

function splitFrom :: "string \<Rightarrow> string \<Rightarrow> string \<Rightarrow> string list" where
  "splitFrom sep acc [] = [acc]"
| "splitFrom sep acc (c # cs) =
     (if sep \<noteq> [] \<and> prefix sep (c # cs)
      then acc # splitFrom sep [] (drop (length sep) (c # cs))
      else splitFrom sep (acc @ [c]) cs)"
  by pat_completeness auto
termination
  by (relation "measure (\<lambda>(sep, acc, s). length s)") auto

definition jsSplit :: "string \<Rightarrow> string \<Rightarrow> string list" where
  "jsSplit s sep = (if sep = [] then map (\<lambda>c. [c]) s else splitFrom sep [] s)"

text \<open>The text of \<open>s\<close> in front of the first occurrence of \<open>sep\<close>, all of \<open>s\<close> if there is none.\<close>

fun before :: "string \<Rightarrow> string \<Rightarrow> string" where
  "before sep [] = []"
| "before sep (c # cs) = (if prefix sep (c # cs) then [] else c # before sep cs)"

text \<open>The text of \<open>s\<close> behind the first occurrence of \<open>sep\<close>, if there is one.\<close>

fun after :: "string \<Rightarrow> string \<Rightarrow> string option" where
  "after sep [] = (if sep = [] then Some [] else None)"
| "after sep (c # cs) =
     (if prefix sep (c # cs) then Some (drop (length sep) (c # cs)) else after sep cs)"

section \<open>getCookie\<close>

text \<open>
  The result is a string, \<open>undefined\<close> (the destructuring \<open>[, value]\<close> of a one-element
  array) or \<open>null\<close>.
\<close>

definition getCookie :: "string option \<Rightarrow> string \<Rightarrow> jsval" where
  "getCookie cookieString cookieKey =
     (case cookieString of
        None \<Rightarrow> JNull
      | Some cs \<Rightarrow>
          if cs = [] then JNull
          else
            (case find (\<lambda>cookie. jsIncludes cookie cookieKey) (jsSplit cs ''; '') of
               None \<Rightarrow> JNull
             | Some targetCookie \<Rightarrow>
                 if targetCookie = [] then JNull
                 else
                   (case jsSplit targetCookie (cookieKey @ ''='') of
                      x # value # xs \<Rightarrow> JStr value
                    | _ \<Rightarrow> Undefined)))"

text \<open>
  The extractor as the specification words it: the exact substring following the first
  \<open>K=\<close> match within a \<open>"; "\<close>-delimited segment, or none if the header is absent or no
  segment has a match.
\<close>

definition cookieAfterFirstMatch :: "string option \<Rightarrow> string \<Rightarrow> string option" where
  "cookieAfterFirstMatch cookieString cookieKey =
     (case cookieString of
        None \<Rightarrow> None
      | Some cs \<Rightarrow>
          (case find (\<lambda>cookie. jsIncludes cookie (cookieKey @ ''='')) (jsSplit cs ''; '') of
             None \<Rightarrow> None
           | Some cookie \<Rightarrow> after (cookieKey @ ''='') cookie))"

section \<open>Searching, slicing and rendering\<close>

text \<open>
  \<open>s.indexOf(needle, position)\<close>: the position is clamped to the string, and the result is
  the index of the first occurrence at or behind it, or -1. \<open>findFrom\<close> scans the rest of
  the string, \<open>i\<close> being the index of its first code unit.
\<close>

fun findFrom :: "string \<Rightarrow> string \<Rightarrow> nat \<Rightarrow> int" where
  "findFrom needle [] i = (if needle = [] then int i else - 1)"
| "findFrom needle (c # cs) i =
     (if prefix needle (c # cs) then int i else findFrom needle cs (Suc i))"

definition indexOf :: "string \<Rightarrow> string \<Rightarrow> int \<Rightarrow> int" where
  "indexOf s needle position =
     (let k = nat (min (max position 0) (int (length s)))
      in findFrom needle (drop k s) k)"

text \<open>
  \<open>s.search(pattern)\<close> for a pattern string without regular-expression metacharacters,
  which matches as the literal text: the index of the first occurrence, or -1.
\<close>

definition search :: "string \<Rightarrow> string \<Rightarrow> int" where
  "search s pattern = findFrom pattern s 0"

text \<open>
  \<open>s.substring(start, end)\<close>: both indices are clamped to the string and swapped if the
  first is larger.
\<close>

definition substring :: "string \<Rightarrow> int \<Rightarrow> int \<Rightarrow> string" where
  "substring s start finish =
     (let n = int (length s);
          a = min (max start 0) n;
          b = min (max finish 0) n
      in take (nat (max a b - min a b)) (drop (nat (min a b)) s))"

section \<open>The platform\<close>

text \<open>
  The primitives of the runtime that the worker calls, next to the network: the clock,
  the random generator, Web Crypto, base64 and text coding, \<open>JSON.stringify\<close>, the
  rendering of a number as a string, and the URL parser. They are parameters of the model.
  \<open>importKey\<close> and \<open>subtleEncrypt\<close> reject (the \<open>await\<close> throws) when the platform refuses
  the key or the operation. \<open>parseUrl\<close> gives the serialised form of an absolute URL and
  \<open>None\<close> for a string that is not an absolute URL.
\<close>

type_synonym bytes = "nat list"

record platform =
  network :: network
  now :: int
  getRandomValues :: "nat \<Rightarrow> bytes"
  importKey :: "bytes \<Rightarrow> error + bytes"
  subtleEncrypt :: "bytes \<Rightarrow> bytes \<Rightarrow> bytes \<Rightarrow> error + bytes"
  base64ToBytes :: "string \<Rightarrow> bytes"
  bytesToBase64 :: "bytes \<Rightarrow> string"
  textEncode :: "string \<Rightarrow> bytes"
  jsonStringify :: "jsval \<Rightarrow> string"
  numberToString :: "number \<Rightarrow> string"
  parseUrl :: "string \<Rightarrow> string option"

section \<open>Rendering values\<close>

text \<open>The renderings of a template literal: booleans, and values in general.\<close>

definition showBool :: "bool \<Rightarrow> string" where
  "showBool b = (if b then ''true'' else ''false'')"

fun joinWith :: "string \<Rightarrow> string list \<Rightarrow> string" where
  "joinWith sep [] = []"
| "joinWith sep [x] = x"
| "joinWith sep (x # y # ys) = x @ sep @ joinWith sep (y # ys)"

fun toStringJs :: "platform \<Rightarrow> jsval \<Rightarrow> string" where
  "toStringJs p Undefined = ''undefined''"
| "toStringJs p JNull = ''null''"
| "toStringJs p (JBool b) = showBool b"
| "toStringJs p (JNum n) = numberToString p (toNumber n)"
| "toStringJs p (JStr s) = s"
| "toStringJs p (JArr xs) =
     joinWith '','' (map (\<lambda>x. if x = Undefined \<or> x = JNull then [] else toStringJs p x) xs)"
| "toStringJs p (JObj ps) = ''[object Object]''"

section \<open>Configuration parsing\<close>

text \<open>
  \<open>parseInt(value, 10)\<close>: leading white space is skipped, a sign is read, and the longest
  run of decimal digits is the value, as a double; without a digit the result is NaN
  (\<open>None\<close>). \<open>undefined\<close> is first turned into the string \<open>"undefined"\<close>. The double is the
  one nearest to the integer that the digits denote.
\<close>

definition isWhiteSpace :: "char \<Rightarrow> bool" where
  "isWhiteSpace c = (c \<in> set [CHR 0x09, CHR 0x0A, CHR 0x0B, CHR 0x0C, CHR 0x0D, CHR 0x20, CHR 0xA0])"

definition isDigit :: "char \<Rightarrow> bool" where
  "isDigit c = (c \<in> set ''0123456789'')"

definition digitValue :: "char \<Rightarrow> int" where
  "digitValue c = int (of_char c) - 48"

definition parseInt10 :: "string option \<Rightarrow> number option" where
  "parseInt10 value =
     (let s = dropWhile isWhiteSpace (case value of None \<Rightarrow> ''undefined'' | Some v \<Rightarrow> v);
          sign = (if take 1 s = ''-'' then - 1 else 1);
          digits = takeWhile isDigit (if take 1 s = ''-'' \<or> take 1 s = ''+'' then drop 1 s else s)
      in if digits = [] then None
         else Some (toNumber (sign * foldl (\<lambda>acc d. 10 * acc + digitValue d) 0 digits)))"

definition parseNumber :: "string option \<Rightarrow> number" where
  "parseNumber value = (case parseInt10 value of None \<Rightarrow> Num 0 | Some n \<Rightarrow> n)"

text \<open>\<open>String(value).toLowerCase() === 'true'\<close>.\<close>

definition toLowerCase :: "string \<Rightarrow> string" where
  "toLowerCase s =
     map (\<lambda>c. case map_of (zip ''ABCDEFGHIJKLMNOPQRSTUVWXYZ'' ''abcdefghijklmnopqrstuvwxyz'') c of
                None \<Rightarrow> c | Some l \<Rightarrow> l) s"

definition parseBoolean :: "string option \<Rightarrow> bool" where
  "parseBoolean value =
     (toLowerCase (case value of None \<Rightarrow> ''undefined'' | Some v \<Rightarrow> v) = ''true'')"

section \<open>handleFailure, encrypt, encode, dataExchangeHandler\<close>

text \<open>
  What the handler resolves to: the origin's response as it came, the origin's response
  passed through the HTML rewriter with a script to append to the body element, or a
  redirect with its Location and status.
\<close>

datatype outcome = Passthrough response | Rewritten response string | Redirect string int

text \<open>
  \<open>Response.redirect(errorUrl, '301')\<close>: the argument is turned into a string and parsed
  as a URL; a string that is not an absolute URL makes the call throw a TypeError,
  otherwise the Location is the serialised URL.
\<close>

definition handleFailure :: "platform \<Rightarrow> jsval \<Rightarrow> error + outcome" where
  "handleFailure p errorUrl =
     (case parseUrl p (toStringJs p errorUrl) of
        None \<Rightarrow> Inl TypeError
      | Some location \<Rightarrow> Inr (Redirect location 301))"

definition encrypt :: "platform \<Rightarrow> bytes \<Rightarrow> string \<Rightarrow> error + bytes \<times> bytes" where
  "encrypt p keyBytes data =
     (let iv = getRandomValues p 12 in
      case importKey p keyBytes of
        Inl e \<Rightarrow> Inl e
      | Inr importedKey \<Rightarrow>
          (case subtleEncrypt p importedKey iv (textEncode p data) of
             Inl e \<Rightarrow> Inl e
           | Inr ciphertext \<Rightarrow> Inr (iv, ciphertext)))"

definition encode :: "platform \<Rightarrow> bytes \<Rightarrow> bytes \<Rightarrow> string" where
  "encode p iv ciphertext = bytesToBase64 p iv @ ''.'' @ bytesToBase64 p ciphertext"

definition dataExchangeHandler :: "platform \<Rightarrow> bytes \<Rightarrow> jsval \<Rightarrow> error + jsval" where
  "dataExchangeHandler p secretKey username =
     (let dataExchangeData =
            JObj [(''timestamp'', JNum (now p)), (''email'', username),
                  (''app'', JStr ''web-login'')]
      in case encrypt p secretKey (jsonStringify p dataExchangeData) of
           Inl e \<Rightarrow> Inl e
         | Inr (iv, ciphertext) \<Rightarrow> Inr (JObj [(''encodedData'', JStr (encode p iv ciphertext))]))"

section \<open>The environment\<close>

text \<open>
  The variables of the worker's environment: each is a string, or is not set
  (\<open>undefined\<close>, here \<open>None\<close>).
\<close>

record env =
  env_publicKey :: "string option"
  env_privateKey :: "string option"
  env_clientSubdomain :: "string option"
  env_verifySubdomain :: "string option"
  env_errorUrl :: "string option"
  env_arkoseCookieName :: "string option"
  env_arkoseErrorCookieName :: "string option"
  env_arkoseCookieLife :: "string option"
  env_failOpen :: "string option"
  env_verifyMaxRetryCount :: "string option"
  env_scriptMaxRetryCount :: "string option"
  env_DX :: "string option"
  env_tokenEnforcement :: "string option"
  env_secretKeyBase64 :: "string option"

text \<open>
  The constants that the handler computes from the environment at its start. A variable
  read without a default is the string or \<open>undefined\<close>.
\<close>

record config =
  publicKey :: jsval
  privateKey :: jsval
  clientSubdomain :: string
  verifySubdomain :: string
  errorUrl :: jsval
  arkoseCookieName :: string
  arkoseErrorCookieName :: string
  arkoseCookieLife :: number
  failOpen :: bool
  verifyMaxRetryCount :: number
  scriptMaxRetryCount :: number
  usingDX :: bool
  tokenEnforcement :: bool
  secretKey :: bytes

definition orUndefined :: "string option \<Rightarrow> jsval" where
  "orUndefined value = (case value of None \<Rightarrow> Undefined | Some v \<Rightarrow> JStr v)"

definition orDefault :: "string option \<Rightarrow> string \<Rightarrow> string" where
  "orDefault value d = (case value of None \<Rightarrow> d | Some v \<Rightarrow> v)"

text \<open>
  The start of the handler, up to the decoding of the secret key:
  \<open>Buffer.from(secretKeyBase64, 'base64')\<close> throws a TypeError when the variable is not set,
  whether data exchange is enabled or not.
\<close>

definition readEnv :: "platform \<Rightarrow> env \<Rightarrow> error + config" where
  "readEnv p e =
     (case env_secretKeyBase64 e of
        None \<Rightarrow> Inl TypeError
      | Some secretKeyBase64 \<Rightarrow>
          Inr \<lparr>publicKey = orUndefined (env_publicKey e),
               privateKey = orUndefined (env_privateKey e),
               clientSubdomain = orDefault (env_clientSubdomain e) ''client-api'',
               verifySubdomain = orDefault (env_verifySubdomain e) ''verify-api'',
               errorUrl = orUndefined (env_errorUrl e),
               arkoseCookieName = orDefault (env_arkoseCookieName e) ''arkoseToken'',
               arkoseErrorCookieName = orDefault (env_arkoseErrorCookieName e) ''arkoseError'',
               arkoseCookieLife = parseNumber (env_arkoseCookieLife e),
               failOpen = parseBoolean (env_failOpen e),
               verifyMaxRetryCount = parseNumber (env_verifyMaxRetryCount e),
               scriptMaxRetryCount = parseNumber (env_scriptMaxRetryCount e),
               usingDX = parseBoolean (env_DX e),
               tokenEnforcement = parseBoolean (env_tokenEnforcement e),
               secretKey = base64ToBytes p secretKeyBase64\<rparr>)"

section \<open>The injected script\<close>

text \<open>
  The template literal of \<open>injectArkose\<close>, line by line, with its interpolations.
\<close>

definition scriptVariables :: "platform \<Rightarrow> config \<Rightarrow> string list" where
  "scriptVariables p c =
     [''<script>'',
      ''              var publicKey = '' @ [CHR 0x27] @ toStringJs p (publicKey c) @ [CHR 0x27] @ '';'',
      ''              var clientSubdomain = '' @ [CHR 0x27] @ clientSubdomain c @ [CHR 0x27] @ '';'',
      ''              var errorUrl = '' @ [CHR 0x27] @ toStringJs p (errorUrl c) @ [CHR 0x27] @ '';'',
      ''              var arkoseCookieName = '' @ [CHR 0x27] @ arkoseCookieName c @ [CHR 0x27] @ '';'',
      ''              var arkoseErrorCookieName = '' @ [CHR 0x27] @ arkoseErrorCookieName c @ [CHR 0x27] @ '';'',
      ''              var arkoseCookieLife = '' @ [CHR 0x27] @ numberToString p (arkoseCookieLife c) @ [CHR 0x27] @ '';'',
      ''              var failOpen = '' @ showBool (failOpen c) @ '';'',
      ''              var arkoseRetryMax = '' @ numberToString p (scriptMaxRetryCount c) @ '';'',
      ''              var arkoseScriptSrc = 'https://' + clientSubdomain + '.arkoselabs.com/v2/' + publicKey + '/api.js';'']"

definition scriptForm :: "string list" where
  "scriptForm =
     [''              '',
      ''              var arkose = null;'',
      ''              var arkoseRetry = 0;'',
      ''              var arkoseReady = false;'',
      ''              var arkoseResetting = false;'',
      ''              var arkoseCompleted = false;'',
      ''              var submitForm = document.querySelector('form');'',
      ''              var submitButton = null;'',
      [],
      ''              setupForm();'',
      ''      '',
      ''              /**'',
      ''              * Sets up the events for hijacking the form submission'',
      ''              */'',
      ''              function setupForm() {'',
      ''                  if (submitForm) {'',
      ''                      submitButton = submitForm.querySelector('[type=submit]');'',
      ''                      arkoseComplete = false;'',
      ''                      if (!arkoseReady) {'',
      ''                          submitButton.setAttribute('disabled', true);'',
      ''                      }'',
      ''                      submitForm.addEventListener('submit', function (event) {'',
      ''                          if (!arkoseReady) {'',
      ''                              event.preventDefault();'',
      ''                              return;'',
      ''                          }'',
      ''                          if (!arkoseComplete) {'',
      ''                              event.preventDefault();'',
      ''                              arkose.run();'',
      ''                              return;'',
      ''                          }'',
      ''                      })'',
      ''                  }'',
      ''              }'',
      ''      '']"

definition scriptStatusAndError :: "string list" where
  "scriptStatusAndError =
     [''              /**'',
      ''              * Checks the current status of the Arkose Labs platform and invokes a callback with the result'',
      ''              * @param  {function} callback The function to call once the status check has been performed'',
      ''              */'',
      ''              function checkArkoseStatus(callback) {'',
      ''                  try {'',
      ''                      var xhr = new XMLHttpRequest();'',
      ''                      xhr.open('GET', 'https://status.arkoselabs.com/api/v2/status.json', false);'',
      ''                      xhr.onreadystatechange = function() {'',
      ''                          if (xhr.readyState == XMLHttpRequest.DONE) {'',
      ''                              if (this.status == 200) {'',
      ''                                  var res = JSON.parse(xhr.responseText);'',
      ''                                  var status = res.status.indicator;'',
      ''                                  callback(!(status === 'critical'));'',
      ''                                  return;'',
      ''                              }'',
      ''                              callback(false);'',
      ''                          }'',
      ''                      };'',
      ''                      xhr.send(null);'',
      ''                  } catch (error) {'',
      ''                      callback(false);'',
      ''                  }'',
      ''              }'',
      ''      '',
      ''              /**'',
      ''              * In the case of an error reset the arkose cookie and setup a new cookie that tracks the error'',
      ''              * @param  {string} error The error string to set in the error cookie'',
      ''              */'',
      ''              function handleError(error) {'',
      ''                  arkoseComplete = true;'',
      ''                  document.cookie = arkoseCookieName + '=;expires=' + new Date(Date.now() + arkoseCookieLife).toUTCString() + '; path=/;';'',
      ''                  document.cookie = arkoseErrorCookieName + '=' + error + ';expires=' + new Date(Date.now() + arkoseCookieLife).toUTCString() + '; path=/;';                               '',
      ''              }  '',
      ''              '',
      ''               /**'',
      ''              * The callback thats called after the Arkose Labs script has been loaded'',
      ''              * @param  {object} myEnforcement The Arkose Labs enforcement object'',
      ''              */'',
      ''              function setupEnforcement(myEnforcement) {'',
      ''                  arkose = myEnforcement;'',
      ''                  arkose.setConfig({'',
      ''                      data: {'']"

definition scriptBlobLine :: "platform \<Rightarrow> jsval \<Rightarrow> string" where
  "scriptBlobLine p encodedData =
     ''                        blob: \"'' @ toStringJs p encodedData @ ''\"''"

definition scriptCallbacks :: "string list" where
  "scriptCallbacks =
     [''                      },'',
      ''                      onReady: function() {'',
      ''                          arkoseReady = true;'',
      ''                          if (submitButton) {'',
      ''                              submitButton.removeAttribute('disabled');'',
      ''                          }'',
      ''                          if (arkoseResetting) {'',
      ''                              arkoseResetting = false;'',
      ''                              arkose.run();'',
      ''                          }'',
      ''                          document.cookie = arkoseCookieName + '=' + '=; expires=Thu, 01 Jan 1970 00:00:00 UTC; path=/;';'',
      ''                          document.cookie = arkoseErrorCookieName + '=' + '=; expires=Thu, 01 Jan 1970 00:00:00 UTC; path=/;';'',
      ''                      },'',
      ''                      onCompleted: function(response) {'',
      ''                          arkoseComplete = true;'',
      ''                          if (response.token){'',
      ''                              document.cookie = arkoseCookieName + '=' + response.token + ';expires=' + new Date(Date.now() + arkoseCookieLife).toUTCString() + '; path=/;';'',
      ''                          } else {'',
      ''                              handleError('TOKEN_MISSING');'',
      ''                          }'',
      ''                          submitForm.submit();'',
      ''                      },'',
      ''                      onError: function(response) {'',
      ''                          checkArkoseStatus(function (isHealthy) {    '',
      ''                              if (isHealthy && arkoseRetry < arkoseMaxRetryCount) {'',
      ''                                  arkoseReady = false;'',
      ''                                  arkoseResetting = true;'']"

definition scriptLoader :: "string list" where
  "scriptLoader =
     [''                                  arkose.reset();'',
      ''                                  arkoseRetry = arkoseRetry + 1;'',
      ''                                  return;'',
      ''                              }'',
      ''                              handleError(response.error ? response.error.error : 'error');'',
      ''                              submitButton.removeAttribute('disabled');'',
      ''                              submitForm.submit();'',
      ''                          });'',
      ''                      }'',
      ''                  });'',
      ''              }'',
      [],
      ''              function createArkoseScript() {'',
      ''                var script = document.createElement('script');'',
      ''                script.type = 'text/javascript';'',
      ''                script.src = arkoseScriptSrc;'',
      ''                script.setAttribute('data-callback', 'setupEnforcement');'',
      ''                script.async = true;'',
      ''                script.defer = true;'',
      ''                script.id = 'arkose-script';'',
      ''                document.getElementsByTagName('head')[0].appendChild(script);'',
      ''            }'',
      [],
      ''            createArkoseScript();'',
      [],
      ''          </script>'']"

definition arkoseScript :: "platform \<Rightarrow> config \<Rightarrow> jsval \<Rightarrow> string" where
  "arkoseScript p c encodedData =
     joinWith [CHR 0x0A]
       (scriptVariables p c @ scriptForm @ scriptStatusAndError
          @ [scriptBlobLine p encodedData] @ scriptCallbacks @ scriptLoader)"

section \<open>The request handler\<close>

text \<open>
  \<open>injectArkose\<close>: the blob is the object that \<open>dataExchangeHandler\<close> returns, or the empty
  string; the script interpolates \<open>blob.encodedData\<close>.
\<close>

definition injectArkose ::
  "platform \<Rightarrow> config \<Rightarrow> response \<Rightarrow> jsval \<Rightarrow> error + outcome" where
  "injectArkose p c resp username =
     (case (if usingDX c then dataExchangeHandler p (secretKey c) username
            else Inr (JStr [])) of
        Inl e \<Rightarrow> Inl e
      | Inr blob \<Rightarrow>
          (case getProp blob ''encodedData'' of
             Inl e \<Rightarrow> Inl e
           | Inr encodedData \<Rightarrow> Inr (Rewritten resp (arkoseScript p c encodedData))))"

text \<open>\<open>checkResponse\<close> calls \<open>injectArkose\<close> without a username.\<close>

definition checkResponse :: "platform \<Rightarrow> config \<Rightarrow> response \<Rightarrow> error + outcome" where
  "checkResponse p c resp =
     (if status resp = 302 then Inr (Passthrough resp) else injectArkose p c resp Undefined)"

text \<open>\<open>const response = await fetch(request); return checkResponse(response);\<close>\<close>

definition fetchAndCheck ::
  "platform \<Rightarrow> config \<Rightarrow> request \<Rightarrow> call list \<Rightarrow> (error + outcome) \<times> call list" where
  "fetchAndCheck p c req tr =
     (case fetch (network p) (Forward req) tr of
        (Rejected, tr') \<Rightarrow> (Inl NetworkError, tr')
      | (Resolved resp, tr') \<Rightarrow> (checkResponse p c resp, tr'))"

definition usernameMarker :: string where
  "usernameMarker = ''name=\"username\" value=\"''"

text \<open>The username that the GET path with data exchange reads out of the origin's body.\<close>

definition usernameOf :: "string \<Rightarrow> string" where
  "usernameOf originalBody =
     (let position = search originalBody usernameMarker;
          endpositon = indexOf originalBody ''\"'' (position + 23)
      in substring originalBody (position + 23) endpositon)"

text \<open>
  The body of \<open>fetch(request, env)\<close> behind the reading of the environment. The result
  is \<open>None\<close> if the handler never returns, \<open>Inl\<close> if it throws.
\<close>

definition handleRequest ::
  "platform \<Rightarrow> config \<Rightarrow> request \<Rightarrow> call list \<Rightarrow> ((error + outcome) \<times> call list) option" where
  "handleRequest p c req tr =
     (if httpMethod req = ''GET'' then
        if usingDX c then
          (case fetch (network p) (Forward req) tr of
             (Rejected, tr1) \<Rightarrow> Some (Inl NetworkError, tr1)
           | (Resolved originalResponse, tr1) \<Rightarrow>
               (case body originalResponse of
                  None \<Rightarrow> Some (Inl NetworkError, tr1)
                | Some originalBody \<Rightarrow>
                    (let username = usernameOf originalBody in
                     case fetch (network p) (Forward req) tr1 of
                       (Rejected, tr2) \<Rightarrow> Some (Inl NetworkError, tr2)
                     | (Resolved res, tr2) \<Rightarrow>
                         Some (injectArkose p c res (JStr username), tr2))))
        else
          (case fetch (network p) (Forward req) tr of
             (Rejected, tr1) \<Rightarrow> Some (Inl NetworkError, tr1)
           | (Resolved res, tr1) \<Rightarrow> Some (injectArkose p c res (JStr []), tr1))
      else
        (let arkoseToken = getCookie (cookieHeader req) (arkoseCookieName c) in
         if truthy arkoseToken \<and> arkoseToken \<noteq> JStr [] then
           (case verifyArkoseToken (network p) arkoseToken (privateKey c) (verifySubdomain c)
                   (verifyMaxRetryCount c) (Num 0) tr of
              None \<Rightarrow> None
            | Some (verifyStatus, tr1) \<Rightarrow>
                if verified verifyStatus then Some (fetchAndCheck p c req tr1)
                else if \<not> arkoseStatus verifyStatus \<and> failOpen c
                  then Some (fetchAndCheck p c req tr1)
                else if tokenEnforcement c then Some (handleFailure p (errorUrl c), tr1)
                else Some (fetchAndCheck p c req tr1))
         else if tokenEnforcement c then Some (handleFailure p (errorUrl c), tr)
         else Some (fetchAndCheck p c req tr)))"

text \<open>
  \<open>fetch(request, env)\<close>: the environment is read first, and a throw there ends the
  handler before it looks at the request.
\<close>

definition fetchHandler ::
  "platform \<Rightarrow> request \<Rightarrow> env \<Rightarrow> call list \<Rightarrow> ((error + outcome) \<times> call list) option" where
  "fetchHandler p req e tr =
     (case readEnv p e of
        Inl err \<Rightarrow> Some (Inl err, tr)
      | Inr c \<Rightarrow> handleRequest p c req tr)"

text \<open>
  The decision on a request with a token, as the specification words it: fetch the origin
  (and apply the injection policy) or redirect to the error URL.
\<close>

datatype decision = FetchOrigin | RedirectToErrorUrl

definition decide :: "bool \<Rightarrow> bool \<Rightarrow> bool \<Rightarrow> bool \<Rightarrow> decision" where
  "decide isVerified platformHealthy failOpenConfigured enforcementOn =
     (if isVerified then FetchOrigin
      else if \<not> platformHealthy \<and> failOpenConfigured then FetchOrigin
      else if enforcementOn then RedirectToErrorUrl
      else FetchOrigin)"

section \<open>A platform, an environment and requests used as concrete instances\<close>

text \<open>
  A platform for the instances below. Its primitives are simple stand-ins: the URL parser
  knows the one absolute URL that the instances use and refuses every other string, and
  numbers are rendered by their digits, which is right for the integers up to \<open>2^53\<close>
  that the instances use.
\<close>

fun showNat :: "nat \<Rightarrow> string" where
  "showNat n =
     (if n < 10 then [''0123456789'' ! n]
      else showNat (n div 10) @ [''0123456789'' ! (n mod 10)])"

declare showNat.simps [simp del]

definition showSafeInteger :: "number \<Rightarrow> string" where
  "showSafeInteger x =
     (case x of
        Num n \<Rightarrow> (if n < 0 then CHR ''-'' # showNat (nat (- n)) else showNat (nat n))
      | PosInfinity \<Rightarrow> ''Infinity''
      | NegInfinity \<Rightarrow> ''-Infinity'')"

definition examplePlatform :: "network \<Rightarrow> platform" where
  "examplePlatform net =
     \<lparr>network = net, now = 0, getRandomValues = (\<lambda>n. replicate n 0),
      importKey = Inr, subtleEncrypt = (\<lambda>k iv d. Inr d),
      base64ToBytes = map of_char, bytesToBase64 = map char_of,
      textEncode = map of_char, jsonStringify = (\<lambda>v. ''{}''),
      numberToString = showSafeInteger,
      parseUrl = (\<lambda>u. if u = ''https://example.com/error'' then Some u else None)\<rparr>"

definition workerEnv :: env where
  "workerEnv =
     \<lparr>env_publicKey = Some ''PUBLIC'', env_privateKey = Some ''PRIVATE'',
      env_clientSubdomain = None, env_verifySubdomain = None,
      env_errorUrl = Some ''https://example.com/error'',
      env_arkoseCookieName = None, env_arkoseErrorCookieName = None,
      env_arkoseCookieLife = Some ''60000'', env_failOpen = Some ''true'',
      env_verifyMaxRetryCount = Some ''2'', env_scriptMaxRetryCount = Some ''2'',
      env_DX = None, env_tokenEnforcement = Some ''true'',
      env_secretKeyBase64 = Some ''c2VjcmV0''\<rparr>"

text \<open>The constants that the handler computes from \<open>workerEnv\<close>.\<close>

definition workerConfig :: "platform \<Rightarrow> config" where
  "workerConfig p =
     \<lparr>publicKey = JStr ''PUBLIC'', privateKey = JStr ''PRIVATE'',
      clientSubdomain = ''client-api'', verifySubdomain = ''verify-api'',
      errorUrl = JStr ''https://example.com/error'',
      arkoseCookieName = ''arkoseToken'', arkoseErrorCookieName = ''arkoseError'',
      arkoseCookieLife = Num 60000, failOpen = True, verifyMaxRetryCount = Num 2,
      scriptMaxRetryCount = Num 2, usingDX = False, tokenEnforcement = True,
      secretKey = base64ToBytes p ''c2VjcmV0''\<rparr>"

definition getRequest :: request where
  "getRequest = \<lparr>httpMethod = ''GET'', url = ''https://example.com/login'', cookieHeader = None\<rparr>"

definition postRequest :: "string option \<Rightarrow> request" where
  "postRequest cookie =
     \<lparr>httpMethod = ''POST'', url = ''https://example.com/login'', cookieHeader = cookie\<rparr>"

definition pageResponse :: "int \<Rightarrow> string \<Rightarrow> response" where
  "pageResponse st text =
     \<lparr>status = st, headers = [(''content-type'', ''text/html'')], body = Some text,
      json = None\<rparr>"

text \<open>
  The origin answers every forwarded request with \<open>page\<close>, the verify endpoint with the JSON
  body \<open>v\<close>, and the status page reports no incident.
\<close>

definition originNet :: "response \<Rightarrow> jsval \<Rightarrow> network" where
  "originNet page v tr c =
     (case c of
        Post u p \<Rightarrow> Resolved (jsonResponse v)
      | Get u \<Rightarrow> Resolved (jsonResponse (indicatorJson ''none''))
      | Forward r \<Rightarrow> Resolved page)"

definition solvedJson :: "bool \<Rightarrow> jsval" where
  "solvedJson b = JObj [(''session_details'', JObj [(''solved'', JBool b)])]"

definition dxEnv :: env where
  "dxEnv = workerEnv\<lparr>env_DX := Some ''true''\<rparr>"

text \<open>A platform whose Web Crypto refuses the key.\<close>

definition refusingKeyPlatform :: "network \<Rightarrow> platform" where
  "refusingKeyPlatform net = (examplePlatform net)\<lparr>importKey := (\<lambda>k. Inl OperationError)\<rparr>"

text \<open>A response whose body cannot be read.\<close>

definition brokenBodyResponse :: response where
  "brokenBodyResponse = \<lparr>status = 200, headers = [], body = None, json = None\<rparr>"

section \<open>Facts about the verifier\<close>

lemma snd_checkArkoseStatus: "snd (checkArkoseStatus net tr) = tr @ [Get statusUrl]"
  by (simp add: checkArkoseStatus_def fetch_def split: fetched.splits option.splits sum.splits)

lemma snd_verifyAttempt:
  "snd (verifyAttempt net token key sub tr)
     = tr @ [verifyCall token key sub]"
  by (simp add: verifyAttempt_def fetch_def split: fetched.splits option.splits sum.splits)

lemma verifyAttempt_Rejected:
  "net tr (verifyCall token key sub) = Rejected \<Longrightarrow>
   verifyAttempt net token key sub tr
     = (Inl NetworkError, tr @ [verifyCall token key sub])"
  by (simp add: verifyAttempt_def fetch_def)

lemma isVerifyCall_verifyCall [simp]: "isVerifyCall (verifyCall token key sub)"
  by (simp add: verifyCall_def)

lemma isStatusCall_verifyCall [simp]: "\<not> isStatusCall (verifyCall token key sub)"
  by (simp add: verifyCall_def)

lemma isOriginCall_verifyCall [simp]: "\<not> isOriginCall (verifyCall token key sub)"
  by (simp add: verifyCall_def)

lemma checkArkoseStatus_eq:
  "checkArkoseStatus net tr = (fst (checkArkoseStatus net tr), tr @ [Get statusUrl])"
  by (metis prod.collapse snd_checkArkoseStatus)

lemma verifyArkoseToken_failed_attempt:
  assumes "verifyAttempt net token key sub tr = (Inl e, tr1)"
  shows "verifyArkoseToken net token key sub m cur tr =
     (if fst (checkArkoseStatus net tr1) then
        if cur = m
        then Some (\<lparr>verified = False, arkoseStatus = True\<rparr>, tr1 @ [Get statusUrl])
        else verifyArkoseToken net token key sub m (addOne cur) (tr1 @ [Get statusUrl])
      else Some (\<lparr>verified = False, arkoseStatus = False\<rparr>, tr1 @ [Get statusUrl]))"
  apply (subst verifyArkoseToken.simps)
  apply (subst checkArkoseStatus_eq)
  apply (simp add: assms)
  done

lemma verifyArkoseToken_good_attempt:
  assumes "verifyAttempt net token key sub tr = (Inr r, tr1)"
  shows "verifyArkoseToken net token key sub m cur tr = Some (r, tr1)"
  by (subst verifyArkoseToken.simps) (simp add: assms)

lemma verifyAttempt_cases:
  obtains (ok) r where "verifyAttempt net token key sub tr
                          = (Inr r, tr @ [verifyCall token key sub])"
  | (failed) e where "verifyAttempt net token key sub tr
                          = (Inl e, tr @ [verifyCall token key sub])"
proof (cases "fst (verifyAttempt net token key sub tr)")
  case (Inl e)
  then have "verifyAttempt net token key sub tr
               = (Inl e, tr @ [verifyCall token key sub])"
    by (metis prod.collapse snd_verifyAttempt)
  then show thesis by (rule failed)
next
  case (Inr r)
  then have "verifyAttempt net token key sub tr
               = (Inr r, tr @ [verifyCall token key sub])"
    by (metis prod.collapse snd_verifyAttempt)
  then show thesis by (rule ok)
qed

lemma toNumber_safe: "\<bar>z\<bar> \<le> 2 ^ 53 \<Longrightarrow> toNumber z = Num z"
proof -
  assume a: "\<bar>z\<bar> \<le> 2 ^ 53"
  then have "nat \<bar>z\<bar> \<le> 2 ^ 53" by (simp add: nat_le_iff)
  then have r: "roundMagnitude (nat \<bar>z\<bar>) = nat \<bar>z\<bar>" by (simp add: roundMagnitude_def)
  have "(2::nat) ^ 53 < 2 ^ 1024" by (rule power_strict_increasing) simp_all
  with \<open>nat \<bar>z\<bar> \<le> 2 ^ 53\<close> have "\<not> 2 ^ 1024 \<le> nat \<bar>z\<bar>" by linarith
  then show ?thesis by (simp add: toNumber_def r Let_def)
qed

lemma addOne_safe: "0 \<le> k \<Longrightarrow> k < 2 ^ 53 \<Longrightarrow> addOne (Num k) = Num (k + 1)"
  by (simp add: addOne_def toNumber_safe)

lemma addOne_top: "addOne (Num (2 ^ 53)) = Num (2 ^ 53)"
proof -
  have b: "bitLength 9007199254740993 = 54" by (simp add: bitLength.simps)
  have r: "roundMagnitude 9007199254740993 = 9007199254740992"
    by (simp add: roundMagnitude_def b Let_def)
  have "toNumber 9007199254740993 = Num 9007199254740992"
    by (simp add: toNumber_def r Let_def)
  then show ?thesis by (simp add: addOne_def)
qed

lemma retryCount_addOne: "retryCount x \<Longrightarrow> retryCount (addOne x)"
proof (cases x)
  case (Num k)
  assume "retryCount x"
  with Num have k: "0 \<le> k" "k \<le> 2 ^ 53" by (simp_all add: retryCount_def)
  show ?thesis
  proof (cases "k = 2 ^ 53")
    case True
    with Num show ?thesis using addOne_top by (simp add: retryCount_def)
  next
    case False
    with k have "k < 2 ^ 53" by simp
    with k Num show ?thesis by (simp add: addOne_safe retryCount_def)
  qed
qed (simp_all add: retryCount_def)

text \<open>
  From a retry count that has not passed a ceiling of at most \<open>2^53\<close>, the chain returns,
  whatever the network does, and makes at most one attempt per remaining retry plus one.
\<close>

lemma verifyArkoseToken_returns:
  "0 \<le> k \<Longrightarrow> k \<le> m \<Longrightarrow> m \<le> 2 ^ 53 \<Longrightarrow>
   \<exists>r tr'. verifyArkoseToken net token key sub (Num m) (Num k) tr = Some (r, tr')
      \<and> verifyAttempts tr' \<le> verifyAttempts tr + nat (m - k) + 1
      \<and> healthChecks tr' \<le> healthChecks tr + nat (m - k) + 1
      \<and> originFetches tr' = originFetches tr"
proof (induction "nat (m - k)" arbitrary: k tr)
  case 0
  then have eq: "k = m" by simp
  show ?case
  proof (cases rule: verifyAttempt_cases [of net token key sub tr])
    case (ok r)
    then show ?thesis
      by (simp add: verifyArkoseToken_good_attempt verifyAttempts_def healthChecks_def
            originFetches_def)
  next
    case (failed e)
    then show ?thesis
      by (simp add: verifyArkoseToken_failed_attempt eq verifyAttempts_def healthChecks_def
            originFetches_def)
  qed
next
  case (Suc n)
  then have lt: "k < m" and n: "n = nat (m - (k + 1))" and le: "k + 1 \<le> m"
    and nn: "0 \<le> k + 1"
    by linarith+
  from lt Suc.prems have step: "addOne (Num k) = Num (k + 1)"
    by (intro addOne_safe) linarith+
  show ?case
  proof (cases rule: verifyAttempt_cases [of net token key sub tr])
    case (ok r)
    then show ?thesis
      by (simp add: verifyArkoseToken_good_attempt verifyAttempts_def healthChecks_def
            originFetches_def)
  next
    case (failed e)
    let ?tr2 = "(tr @ [verifyCall token key sub]) @ [Get statusUrl]"
    show ?thesis
    proof (cases "fst (checkArkoseStatus net (tr @ [verifyCall token key sub]))")
      case False
      with failed show ?thesis
        by (simp add: verifyArkoseToken_failed_attempt verifyAttempts_def healthChecks_def
              originFetches_def)
    next
      case True
      from Suc.hyps(1) [OF n nn le Suc.prems(3), of ?tr2]
      obtain r tr' where
        run: "verifyArkoseToken net token key sub (Num m) (Num (k + 1)) ?tr2 = Some (r, tr')"
        and va: "verifyAttempts tr' \<le> verifyAttempts ?tr2 + nat (m - (k + 1)) + 1"
        and hc: "healthChecks tr' \<le> healthChecks ?tr2 + nat (m - (k + 1)) + 1"
        and orig: "originFetches tr' = originFetches ?tr2"
        by blast
      have here: "verifyArkoseToken net token key sub (Num m) (Num k) tr = Some (r, tr')"
        using failed True lt run by (simp add: verifyArkoseToken_failed_attempt step)
      have c1: "verifyAttempts ?tr2 = verifyAttempts tr + 1"
        and c2: "healthChecks ?tr2 = healthChecks tr + 1"
        and c3: "originFetches ?tr2 = originFetches tr"
        by (simp_all add: verifyAttempts_def healthChecks_def originFetches_def)
      have d: "nat (m - k) = nat (m - (k + 1)) + 1" using lt by linarith
      show ?thesis using here va hc orig c1 c2 c3 d by simp
    qed
  qed
qed

text \<open>
  When every verify POST rejects and every status check reports a healthy platform, the
  chain uses all its retries and reports a healthy platform.
\<close>

lemma verifyArkoseToken_exhausts:
  assumes down: "\<forall>tr c. isVerifyCall c \<longrightarrow> net tr c = Rejected"
    and up: "\<forall>tr. fst (checkArkoseStatus net tr)"
  shows "0 \<le> k \<Longrightarrow> k \<le> m \<Longrightarrow> m \<le> 2 ^ 53 \<Longrightarrow>
   \<exists>tr'. verifyArkoseToken net token key sub (Num m) (Num k) tr
            = Some (\<lparr>verified = False, arkoseStatus = True\<rparr>, tr')
      \<and> verifyAttempts tr' = verifyAttempts tr + nat (m - k) + 1
      \<and> healthChecks tr' = healthChecks tr + nat (m - k) + 1"
proof (induction "nat (m - k)" arbitrary: k tr)
  case 0
  then have eq: "k = m" by simp
  have att: "verifyAttempt net token key sub tr
               = (Inl NetworkError, tr @ [verifyCall token key sub])"
    using down by (simp add: verifyAttempt_Rejected)
  show ?case using up
    by (simp add: verifyArkoseToken_failed_attempt [OF att] eq verifyAttempts_def
          healthChecks_def)
next
  case (Suc n)
  then have lt: "k < m" and n: "n = nat (m - (k + 1))" and le: "k + 1 \<le> m"
    and nn: "0 \<le> k + 1"
    by linarith+
  from lt Suc.prems have step: "addOne (Num k) = Num (k + 1)"
    by (intro addOne_safe) linarith+
  let ?tr2 = "(tr @ [verifyCall token key sub]) @ [Get statusUrl]"
  have att: "verifyAttempt net token key sub tr
               = (Inl NetworkError, tr @ [verifyCall token key sub])"
    using down by (simp add: verifyAttempt_Rejected)
  from Suc.hyps(1) [OF n nn le Suc.prems(3), of ?tr2]
  obtain tr' where
    run: "verifyArkoseToken net token key sub (Num m) (Num (k + 1)) ?tr2
            = Some (\<lparr>verified = False, arkoseStatus = True\<rparr>, tr')"
    and va: "verifyAttempts tr' = verifyAttempts ?tr2 + nat (m - (k + 1)) + 1"
    and hc: "healthChecks tr' = healthChecks ?tr2 + nat (m - (k + 1)) + 1"
    by blast
  have here: "verifyArkoseToken net token key sub (Num m) (Num k) tr
                = Some (\<lparr>verified = False, arkoseStatus = True\<rparr>, tr')"
    using up lt run by (simp add: verifyArkoseToken_failed_attempt [OF att] step)
  have c1: "verifyAttempts ?tr2 = verifyAttempts tr + 1"
    and c2: "healthChecks ?tr2 = healthChecks tr + 1"
    by (simp_all add: verifyAttempts_def healthChecks_def)
  have d: "nat (m - k) = nat (m - (k + 1)) + 1" using lt by linarith
  show ?case using here va hc c1 c2 d by simp
qed

text \<open>
  Under the same network, a chain whose ceiling is not among the values that the retry
  count takes never returns: the equality test cannot fire. This is so for a negative
  ceiling, and for a ceiling above \<open>2^53\<close> or infinite.
\<close>

lemma verifyArkoseToken_diverges:
  assumes down: "\<forall>tr c. isVerifyCall c \<longrightarrow> net tr c = Rejected"
    and up: "\<forall>tr. fst (checkArkoseStatus net tr)"
    and cur: "retryCount cur" and ceil: "\<not> retryCount m"
  shows "verifyArkoseToken net token key sub m cur tr = None"
proof (rule ccontr)
  assume "verifyArkoseToken net token key sub m cur tr \<noteq> None"
  then obtain y where y: "verifyArkoseToken net token key sub m cur tr = Some y"
    by blast
  have "\<not> ((\<forall>tr c. isVerifyCall c \<longrightarrow> net tr c = Rejected)
            \<and> (\<forall>tr. fst (checkArkoseStatus net tr)) \<and> retryCount cur \<and> \<not> retryCount m)"
  proof (rule verifyArkoseToken.raw_induct
      [where P = "\<lambda>net' t k s m' cur' tr' y'.
          \<not> ((\<forall>tr c. isVerifyCall c \<longrightarrow> net' tr c = Rejected)
            \<and> (\<forall>tr. fst (checkArkoseStatus net' tr))
            \<and> retryCount cur' \<and> \<not> retryCount m')", OF _ y])
    fix f :: "network \<Rightarrow> jsval \<Rightarrow> jsval \<Rightarrow> string \<Rightarrow> number \<Rightarrow> number \<Rightarrow> call list
                \<Rightarrow> (verifyStatus \<times> call list) option"
    fix net token key sub m cur tr y
    assume IH: "\<And>net' t k s m' cur' tr' y'. f net' t k s m' cur' tr' = Some y' \<Longrightarrow>
          \<not> ((\<forall>tr c. isVerifyCall c \<longrightarrow> net' tr c = Rejected)
            \<and> (\<forall>tr. fst (checkArkoseStatus net' tr))
            \<and> retryCount cur' \<and> \<not> retryCount m')"
    assume step: "(case verifyAttempt net token key sub tr of
        (Inl e, tr') \<Rightarrow>
          (case checkArkoseStatus net tr' of
             (healthy, tr'') \<Rightarrow>
               if healthy then
                 if cur = m
                 then Some (\<lparr>verified = False, arkoseStatus = healthy\<rparr>, tr'')
                 else f net token key sub m (addOne cur) tr''
               else Some (\<lparr>verified = False, arkoseStatus = healthy\<rparr>, tr''))
      | (Inr result, tr') \<Rightarrow> Some (result, tr')) = Some y"
    show "\<not> ((\<forall>tr c. isVerifyCall c \<longrightarrow> net tr c = Rejected)
            \<and> (\<forall>tr. fst (checkArkoseStatus net tr)) \<and> retryCount cur \<and> \<not> retryCount m)"
    proof
      assume bad: "(\<forall>tr c. isVerifyCall c \<longrightarrow> net tr c = Rejected)
            \<and> (\<forall>tr. fst (checkArkoseStatus net tr)) \<and> retryCount cur \<and> \<not> retryCount m"
      then have att: "verifyAttempt net token key sub tr
               = (Inl NetworkError, tr @ [verifyCall token key sub])"
        by (simp add: verifyAttempt_Rejected)
      have chk: "checkArkoseStatus net (tr @ [verifyCall token key sub])
                   = (True, (tr @ [verifyCall token key sub]) @ [Get statusUrl])"
        using bad checkArkoseStatus_eq [of net "tr @ [verifyCall token key sub]"]
        by simp
      from bad have ne: "cur \<noteq> m" by auto
      from step have "f net token key sub m (addOne cur)
              ((tr @ [verifyCall token key sub]) @ [Get statusUrl]) = Some y"
        using ne by (simp add: att chk)
      from IH [OF this] bad retryCount_addOne [of cur] show False by simp
    qed
  qed
  with assms show False by blast
qed

lemma verifyDownNet_down: "\<forall>tr c. isVerifyCall c \<longrightarrow> verifyDownNet tr c = Rejected"
  by (auto simp: verifyDownNet_def split: call.splits)

lemma verifyDownNet_up: "\<forall>tr. fst (checkArkoseStatus verifyDownNet tr)"
  by (simp add: checkArkoseStatus_def fetch_def verifyDownNet_def jsonResponse_def
        indicatorJson_def)

lemma verifyAttempt_Resolved:
  assumes "net tr (verifyCall token key sub) = Resolved resp"
    and "json resp = Some data" and "data \<noteq> JNull" and "data \<noteq> Undefined"
  shows "verifyAttempt net token key sub tr
     = (Inr \<lparr>verified = solvedField data, arkoseStatus = True\<rparr>,
        tr @ [verifyCall token key sub])"
proof (cases data)
  case (JObj ps)
  show ?thesis
  proof (cases "map_of ps ''session_details''")
    case None
    with JObj assms(1,2) show ?thesis
      by (simp add: verifyAttempt_def fetch_def solvedField_def)
  next
    case (Some sd)
    with JObj assms(1,2) show ?thesis
      by (cases sd)
        (simp_all add: verifyAttempt_def fetch_def solvedField_def split: option.splits)
  qed
qed (use assms in \<open>simp_all add: verifyAttempt_def fetch_def solvedField_def\<close>)

section \<open>The retry chain is bounded\<close>

text \<open>
  Claim C1, for a retry ceiling from 0 to \<open>2^53\<close>. When every POST to the verify endpoint
  throws and every status check reports a healthy platform, verifyArkoseToken called with
  verifyMaxRetryCount = 2 and currentRetry = 0 returns
  \<open>{verified: false, arkoseStatus: true}\<close> after exactly 3 verify attempts. In general, for
  every integer verifyMaxRetryCount from 0 to \<open>2^53\<close> (the largest value that
  \<open>currentRetry + 1\<close> reaches in double arithmetic) and every network, the chain started at
  currentRetry = 0 returns after at most verifyMaxRetryCount + 1 verify attempts.
\<close>

theorem retry_chain_bounded:
  "((\<forall>tr c. isVerifyCall c \<longrightarrow> net tr c = Rejected) \<and> (\<forall>tr. fst (checkArkoseStatus net tr))
      \<longrightarrow> (\<exists>tr'. verifyArkoseToken net token key sub (Num 2) (Num 0) tr
                    = Some (\<lparr>verified = False, arkoseStatus = True\<rparr>, tr')
               \<and> verifyAttempts tr' = verifyAttempts tr + 3))
   \<and> (0 \<le> maxRetry \<and> maxRetry \<le> 2 ^ 53
      \<longrightarrow> (\<exists>r tr'. verifyArkoseToken net token key sub (Num maxRetry) (Num 0) tr
                      = Some (r, tr')
               \<and> verifyAttempts tr' \<le> verifyAttempts tr + nat maxRetry + 1))"
proof (intro conjI impI)
  assume h: "(\<forall>tr c. isVerifyCall c \<longrightarrow> net tr c = Rejected)
      \<and> (\<forall>tr. fst (checkArkoseStatus net tr))"
  have a: "(0::int) \<le> 0" and b: "(0::int) \<le> 2" and c: "(2::int) \<le> 2 ^ 53" by simp_all
  from verifyArkoseToken_exhausts [OF conjunct1 [OF h] conjunct2 [OF h] a b c,
      of token key sub tr]
  show "\<exists>tr'. verifyArkoseToken net token key sub (Num 2) (Num 0) tr
                    = Some (\<lparr>verified = False, arkoseStatus = True\<rparr>, tr')
               \<and> verifyAttempts tr' = verifyAttempts tr + 3"
    by auto
next
  assume m: "0 \<le> maxRetry \<and> maxRetry \<le> 2 ^ 53"
  have a: "(0::int) \<le> 0" by simp
  from verifyArkoseToken_returns [OF a conjunct1 [OF m] conjunct2 [OF m],
      of net token key sub tr]
  show "\<exists>r tr'. verifyArkoseToken net token key sub (Num maxRetry) (Num 0) tr
                      = Some (r, tr')
               \<and> verifyAttempts tr' \<le> verifyAttempts tr + nat maxRetry + 1"
    by auto
qed

theorem retry_chain_bounded_witness:
  "(0::int) \<le> 2 \<and> (2::int) \<le> 2 ^ 53
   \<and> (\<exists>tr'. verifyArkoseToken verifyDownNet (JStr ''t'') (JStr ''k'') ''verify-api''
                (Num 2) (Num 0) []
                = Some (\<lparr>verified = False, arkoseStatus = True\<rparr>, tr')
           \<and> verifyAttempts tr' = verifyAttempts [] + 3)
   \<and> (\<exists>r tr'. verifyArkoseToken verifyDownNet (JStr ''t'') (JStr ''k'') ''verify-api''
                  (Num 2) (Num 0) [] = Some (r, tr')
           \<and> verifyAttempts tr' \<le> verifyAttempts [] + nat 2 + 1)"
proof -
  have h1: "\<forall>tr c. isVerifyCall c \<longrightarrow> verifyDownNet tr c = Rejected"
    by (rule verifyDownNet_down)
  have h2: "\<forall>tr. fst (checkArkoseStatus verifyDownNet tr)"
    by (rule verifyDownNet_up)
  have h3: "(0::int) \<le> 2" and h4: "(2::int) \<le> 2 ^ 53" by simp_all
  note t = retry_chain_bounded
    [of verifyDownNet "JStr ''t''" "JStr ''k''" "''verify-api''" "[]" 2]
  from t h1 h2 have a: "\<exists>tr'. verifyArkoseToken verifyDownNet (JStr ''t'') (JStr ''k'')
                ''verify-api'' (Num 2) (Num 0) []
                = Some (\<lparr>verified = False, arkoseStatus = True\<rparr>, tr')
           \<and> verifyAttempts tr' = verifyAttempts [] + 3"
    by blast
  from t h3 h4 have b: "\<exists>r tr'. verifyArkoseToken verifyDownNet (JStr ''t'') (JStr ''k'')
                ''verify-api'' (Num 2) (Num 0) [] = Some (r, tr')
           \<and> verifyAttempts tr' \<le> verifyAttempts [] + nat 2 + 1"
    by blast
  from h3 h4 a b show ?thesis by blast
qed

text \<open>
  With the ceiling -1 (the configured string \<open>"-1"\<close>), a verify endpoint that always
  throws and a healthy platform, the chain never returns: currentRetry counts up from 0
  and is never equal to the ceiling. The same holds for the ceiling \<open>2^53 + 2\<close> (the
  configured string \<open>"9007199254740994"\<close>, which is a double): the count stays at \<open>2^53\<close>.
\<close>

theorem retry_chain_negative_ceiling_counterexample:
  "parseNumber (Some ''-1'') = Num (- 1)
   \<and> verifyArkoseToken verifyDownNet (JStr ''t'') (JStr ''k'') ''verify-api''
         (parseNumber (Some ''-1'')) (Num 0) [] = None
   \<and> parseNumber (Some ''9007199254740994'') = Num 9007199254740994
   \<and> verifyArkoseToken verifyDownNet (JStr ''t'') (JStr ''k'') ''verify-api''
         (parseNumber (Some ''9007199254740994'')) (Num 0) [] = None"
proof -
  have n: "parseNumber (Some ''-1'') = Num (- 1)"
    by (simp add: parseNumber_def parseInt10_def isWhiteSpace_def isDigit_def digitValue_def
          toNumber_def roundMagnitude_def)
  have b: "bitLength 9007199254740994 = 54" by (simp add: bitLength.simps)
  have t: "toNumber 9007199254740994 = Num 9007199254740994"
    by (simp add: toNumber_def roundMagnitude_def b Let_def)
  have m: "parseNumber (Some ''9007199254740994'') = Num 9007199254740994"
    by (simp add: parseNumber_def parseInt10_def isWhiteSpace_def isDigit_def digitValue_def t)
  have z: "retryCount (Num 0)" by (simp add: retryCount_def)
  have c1: "\<not> retryCount (Num (- 1))" by (simp add: retryCount_def)
  have c2: "\<not> retryCount (Num 9007199254740994)" by (simp add: retryCount_def)
  have d1: "verifyArkoseToken verifyDownNet (JStr ''t'') (JStr ''k'') ''verify-api''
         (Num (- 1)) (Num 0) [] = None"
    by (rule verifyArkoseToken_diverges [OF verifyDownNet_down verifyDownNet_up z c1])
  have d2: "verifyArkoseToken verifyDownNet (JStr ''t'') (JStr ''k'') ''verify-api''
         (Num 9007199254740994) (Num 0) [] = None"
    by (rule verifyArkoseToken_diverges [OF verifyDownNet_down verifyDownNet_up z c2])
  show ?thesis unfolding n m by (rule conjI [OF refl conjI [OF d1 conjI [OF refl d2]]])
qed

section \<open>An unhealthy platform stops the chain\<close>

text \<open>
  Claim C2. If the POST to the verify endpoint throws and the first status check reports
  an unhealthy platform, verifyArkoseToken returns
  \<open>{verified: false, arkoseStatus: false}\<close> having made exactly one verify attempt and
  exactly one health check, whatever the retry ceiling and the current retry count.
\<close>

theorem unhealthy_platform_no_retry:
  assumes "net tr (verifyCall token key sub) = Rejected"
    and "\<not> fst (checkArkoseStatus net (tr @ [verifyCall token key sub]))"
  shows "verifyArkoseToken net token key sub maxRetry retry tr
           = Some (\<lparr>verified = False, arkoseStatus = False\<rparr>,
                   tr @ [verifyCall token key sub, Get statusUrl])
         \<and> verifyAttempts (tr @ [verifyCall token key sub, Get statusUrl])
             = verifyAttempts tr + 1
         \<and> healthChecks (tr @ [verifyCall token key sub, Get statusUrl])
             = healthChecks tr + 1"
  using assms
  by (simp add: verifyArkoseToken_failed_attempt [OF verifyAttempt_Rejected]
        verifyAttempts_def healthChecks_def)

theorem unhealthy_platform_no_retry_witness:
  "outageNet [] (verifyCall (JStr ''t'') (JStr ''k'') ''verify-api'') = Rejected
   \<and> \<not> fst (checkArkoseStatus outageNet ([] @ [verifyCall (JStr ''t'') (JStr ''k'') ''verify-api'']))
   \<and> verifyArkoseToken outageNet (JStr ''t'') (JStr ''k'') ''verify-api'' (Num 5) (Num 0) []
       = Some (\<lparr>verified = False, arkoseStatus = False\<rparr>,
               [] @ [verifyCall (JStr ''t'') (JStr ''k'') ''verify-api'', Get statusUrl])"
proof -
  have h1: "outageNet [] (verifyCall (JStr ''t'') (JStr ''k'') ''verify-api'') = Rejected"
    by (simp add: outageNet_def verifyCall_def)
  have h2: "\<not> fst (checkArkoseStatus outageNet ([] @ [verifyCall (JStr ''t'') (JStr ''k'') ''verify-api'']))"
    by (simp add: checkArkoseStatus_def fetch_def outageNet_def jsonResponse_def
          indicatorJson_def)
  from unhealthy_platform_no_retry
    [of outageNet "[]" "JStr ''t''" "JStr ''k''" "''verify-api''" "Num 5" "Num 0", OF h1 h2] h1 h2
  show ?thesis by blast
qed

section \<open>A successful verify call is not retried\<close>

text \<open>
  Claim C3, for a body other than \<open>null\<close>. If the POST to the verify endpoint resolves
  and its body parses to a JSON value other than \<open>null\<close> (a parsed body is never
  \<open>undefined\<close>), verifyArkoseToken returns at
  once with arkoseStatus = true and verified = true exactly when \<open>session_details.solved\<close>
  is present and truthy; the only call made is the one verify POST (no retry, no health
  check), whatever the retry ceiling and the current retry count.
\<close>

theorem successful_verify_not_retried:
  assumes "net tr (verifyCall token key sub) = Resolved resp"
    and "json resp = Some data" and "data \<noteq> JNull" and "data \<noteq> Undefined"
  shows "verifyArkoseToken net token key sub maxRetry retry tr
           = Some (\<lparr>verified = solvedField data, arkoseStatus = True\<rparr>,
                   tr @ [verifyCall token key sub])"
proof -
  from assms have "verifyAttempt net token key sub tr
     = (Inr \<lparr>verified = solvedField data, arkoseStatus = True\<rparr>,
        tr @ [verifyCall token key sub])"
    by (rule verifyAttempt_Resolved)
  then show ?thesis by (rule verifyArkoseToken_good_attempt)
qed

theorem successful_verify_not_retried_witness:
  "verifyAnswers (JObj [(''session_details'', JObj [(''solved'', JBool True)])]) []
       (verifyCall (JStr ''t'') (JStr ''k'') ''verify-api'')
     = Resolved (jsonResponse (JObj [(''session_details'', JObj [(''solved'', JBool True)])]))
   \<and> json (jsonResponse (JObj [(''session_details'', JObj [(''solved'', JBool True)])]))
     = Some (JObj [(''session_details'', JObj [(''solved'', JBool True)])])
   \<and> JObj [(''session_details'', JObj [(''solved'', JBool True)])] \<noteq> JNull
   \<and> JObj [(''session_details'', JObj [(''solved'', JBool True)])] \<noteq> Undefined
   \<and> verifyArkoseToken
        (verifyAnswers (JObj [(''session_details'', JObj [(''solved'', JBool True)])]))
        (JStr ''t'') (JStr ''k'') ''verify-api'' (Num 2) (Num 0) []
     = Some (\<lparr>verified = True, arkoseStatus = True\<rparr>, [verifyCall (JStr ''t'') (JStr ''k'') ''verify-api''])"
proof -
  let ?d = "JObj [(''session_details'', JObj [(''solved'', JBool True)])]"
  have h1: "verifyAnswers ?d [] (verifyCall (JStr ''t'') (JStr ''k'') ''verify-api'')
              = Resolved (jsonResponse ?d)"
    by (simp add: verifyAnswers_def verifyCall_def)
  have h2: "json (jsonResponse ?d) = Some ?d" by (simp add: jsonResponse_def)
  have h3: "?d \<noteq> JNull" and h4: "?d \<noteq> Undefined" by simp_all
  have s: "solvedField ?d = True" by (simp add: solvedField_def)
  from successful_verify_not_retried
    [of "verifyAnswers ?d" "[]" "JStr ''t''" "JStr ''k''" "''verify-api''" "jsonResponse ?d" ?d "Num 2" "Num 0",
      OF h1 h2 h3 h4]
  have "verifyArkoseToken (verifyAnswers ?d) (JStr ''t'') (JStr ''k'') ''verify-api'' (Num 2) (Num 0) []
     = Some (\<lparr>verified = True, arkoseStatus = True\<rparr>, [verifyCall (JStr ''t'') (JStr ''k'') ''verify-api''])"
    by (simp add: s)
  with h1 h2 h3 h4 show ?thesis by blast
qed

text \<open>
  A verify POST that resolves with the parseable JSON body \<open>null\<close>: reading
  \<open>data.session_details\<close> throws inside the \<open>try\<close> block, so the status page is queried and
  the call is retried.
\<close>

theorem null_body_is_retried_counterexample:
  "verifyAnswers JNull [] (verifyCall (JStr ''t'') (JStr ''k'') ''verify-api'') = Resolved (jsonResponse JNull)
   \<and> json (jsonResponse JNull) = Some JNull
   \<and> verifyArkoseToken (verifyAnswers JNull) (JStr ''t'') (JStr ''k'') ''verify-api'' (Num 1) (Num 0) []
     = Some (\<lparr>verified = False, arkoseStatus = True\<rparr>,
             [verifyCall (JStr ''t'') (JStr ''k'') ''verify-api'', Get statusUrl,
              verifyCall (JStr ''t'') (JStr ''k'') ''verify-api'', Get statusUrl])"
proof -
  have att: "\<And>tr. verifyAttempt (verifyAnswers JNull) (JStr ''t'') (JStr ''k'') ''verify-api'' tr
              = (Inl TypeError, tr @ [verifyCall (JStr ''t'') (JStr ''k'') ''verify-api''])"
    by (simp add: verifyAttempt_def fetch_def verifyAnswers_def verifyCall_def jsonResponse_def)
  have up: "\<And>tr. fst (checkArkoseStatus (verifyAnswers JNull) tr)"
    by (simp add: checkArkoseStatus_def fetch_def verifyAnswers_def jsonResponse_def
          indicatorJson_def)
  show ?thesis
    by (simp add: verifyArkoseToken_failed_attempt [OF att] up addOne_safe)
      (simp add: verifyAnswers_def verifyCall_def jsonResponse_def)
qed

section \<open>Facts about splitting\<close>

lemma includes_Nil [simp]: "jsIncludes s []"
  by (cases s) simp_all

lemma splitFrom_no_match:
  "sep \<noteq> [] \<Longrightarrow> \<not> jsIncludes s sep \<Longrightarrow> splitFrom sep acc s = [acc @ s]"
  by (induction s arbitrary: acc) simp_all

lemma splitFrom_sep:
  "sep \<noteq> [] \<Longrightarrow> splitFrom sep acc (sep @ rest) = acc # splitFrom sep [] rest"
  by (cases sep) simp_all

lemma splitFrom_first:
  "sep \<noteq> [] \<Longrightarrow> \<not> jsIncludes (butlast (pre @ sep)) sep \<Longrightarrow>
   splitFrom sep acc (pre @ sep @ rest) = (acc @ pre) # splitFrom sep [] rest"
proof (induction pre arbitrary: acc)
  case Nil
  then show ?case by (simp add: splitFrom_sep)
next
  case (Cons p ps)
  from Cons.prems have bl: "butlast ((p # ps) @ sep) = p # butlast (ps @ sep)"
    by simp
  from Cons.prems(2) have np: "\<not> prefix sep (p # butlast (ps @ sep))"
    and ni: "\<not> jsIncludes (butlast (ps @ sep)) sep"
    unfolding bl by simp_all
  have "\<not> prefix sep (p # ps @ sep @ rest)"
  proof
    assume a: "prefix sep (p # ps @ sep @ rest)"
    have b: "prefix (p # butlast (ps @ sep)) (p # ps @ sep @ rest)"
      using Cons.prems(1)
      by (simp add: butlast_append) (metis append_butlast_last_id append.assoc prefixI)
    have "length sep \<le> length (p # butlast (ps @ sep))" by simp
    from prefix_length_prefix [OF a b this] np show False by simp
  qed
  with Cons.IH [OF Cons.prems(1) ni] show ?case by simp
qed

lemma splitFrom_before:
  "sep \<noteq> [] \<Longrightarrow> \<exists>xs. splitFrom sep acc s = (acc @ before sep s) # xs"
proof (induction s arbitrary: acc)
  case Nil
  then show ?case by simp
next
  case (Cons a s)
  from Cons.IH [OF Cons.prems, of "acc @ [a]"] Cons.prems show ?case by simp
qed

lemma before_no_match: "sep \<noteq> [] \<Longrightarrow> \<not> jsIncludes s sep \<Longrightarrow> before sep s = s"
  by (induction s) simp_all

lemma jsIncludes_append: "jsIncludes (pre @ k @ rest) k"
proof (induction pre)
  case Nil
  show ?case
  proof (cases "k @ rest")
    case Nil
    then show ?thesis by simp
  next
    case (Cons c cs)
    have "prefix k (k @ rest)" by simp
    with Cons show ?thesis by simp
  qed
next
  case (Cons p ps)
  then show ?case by simp
qed

lemma jsIncludes_longer: "jsIncludes s (a @ b) \<Longrightarrow> jsIncludes s a"
  by (induction s) (auto dest: append_prefixD)

lemma find_stronger:
  "find P xs = Some x \<Longrightarrow> Q x \<Longrightarrow> (\<And>y. Q y \<Longrightarrow> P y) \<Longrightarrow> find Q xs = Some x"
  by (induction xs) (auto split: if_splits)

lemma after_first:
  "sep \<noteq> [] \<Longrightarrow> \<not> jsIncludes (butlast (pre @ sep)) sep \<Longrightarrow>
   after sep (pre @ sep @ rest) = Some rest"
proof (induction pre)
  case Nil
  then show ?case by (cases sep) simp_all
next
  case (Cons p ps)
  from Cons.prems have bl: "butlast ((p # ps) @ sep) = p # butlast (ps @ sep)"
    by simp
  from Cons.prems(2) have np: "\<not> prefix sep (p # butlast (ps @ sep))"
    and ni: "\<not> jsIncludes (butlast (ps @ sep)) sep"
    unfolding bl by simp_all
  have "\<not> prefix sep (p # ps @ sep @ rest)"
  proof
    assume a: "prefix sep (p # ps @ sep @ rest)"
    have b: "prefix (p # butlast (ps @ sep)) (p # ps @ sep @ rest)"
      using Cons.prems(1)
      by (simp add: butlast_append) (metis append_butlast_last_id append.assoc prefixI)
    have "length sep \<le> length (p # butlast (ps @ sep))" by simp
    from prefix_length_prefix [OF a b this] np show False by simp
  qed
  with Cons.IH [OF Cons.prems(1) ni] show ?case by simp
qed

lemma getCookie_target:
  assumes "find (\<lambda>c. jsIncludes c K) (jsSplit H ''; '') = Some seg" and "seg \<noteq> []"
  shows "getCookie (Some H) K =
     (case jsSplit seg (K @ ''='') of x # value # xs \<Rightarrow> JStr value | _ \<Rightarrow> Undefined)"
proof -
  have "H \<noteq> []"
  proof
    assume "H = []"
    with assms(1) have "seg = []" by (simp add: jsSplit_def split: if_splits)
    with assms(2) show False by simp
  qed
  with assms show ?thesis by (simp add: getCookie_def)
qed

text \<open>
  Where the first segment that contains the key has \<open>K=\<close> in it, the extractor returns
  the text behind the first \<open>K=\<close> up to the next one; with a single \<open>K=\<close> in that segment
  this is the value that the specification's wording gives.
\<close>

lemma getCookie_first_match:
  assumes seg: "find (\<lambda>c. jsIncludes c K) (jsSplit H ''; '') = Some seg"
    and dec: "seg = pre @ (K @ ''='') @ rest"
    and first: "\<not> jsIncludes (butlast (pre @ (K @ ''=''))) (K @ ''='')"
  shows "getCookie (Some H) K = JStr (before (K @ ''='') rest)"
proof -
  have ne: "K @ ''='' \<noteq> []" by simp
  from dec have "seg \<noteq> []" by simp
  note tgt = getCookie_target [OF seg this]
  obtain xs where "splitFrom (K @ ''='') [] rest = ([] @ before (K @ ''='') rest) # xs"
    using splitFrom_before [OF ne] by blast
  with splitFrom_first [OF ne first, of "[]" rest]
  have "jsSplit seg (K @ ''='') = pre # before (K @ ''='') rest # xs"
    by (simp add: jsSplit_def dec)
  with tgt show ?thesis by simp
qed

lemma cookieAfterFirstMatch_first_match:
  assumes seg: "find (\<lambda>c. jsIncludes c K) (jsSplit H ''; '') = Some seg"
    and dec: "seg = pre @ (K @ ''='') @ rest"
    and first: "\<not> jsIncludes (butlast (pre @ (K @ ''=''))) (K @ ''='')"
  shows "cookieAfterFirstMatch (Some H) K = Some rest"
proof -
  have ne: "K @ ''='' \<noteq> []" by simp
  have "jsIncludes seg (K @ ''='')" unfolding dec by (rule jsIncludes_append)
  with seg have "find (\<lambda>c. jsIncludes c (K @ ''='')) (jsSplit H ''; '') = Some seg"
    by (rule find_stronger) (rule jsIncludes_longer)
  then show ?thesis
    by (simp add: cookieAfterFirstMatch_def dec after_first [OF ne first]
          del: append_assoc append.simps)
qed

section \<open>The cookie extractor\<close>

text \<open>
  Claim C7: for every cookie header H and key K, the extractor returns the exact substring
  following the first \<open>K=\<close> match within a \<open>"; "\<close>-delimited segment of H, and none if H
  is absent or no segment contains K. The extractor misses this on two kinds of header.
  When an earlier segment contains the key without \<open>K=\<close>, it stops at that segment
  and returns \<open>undefined\<close>, although a later segment holds the cookie. When \<open>K=\<close> occurs
  twice in the segment, it returns the text between the two occurrences. On both headers
  the extractor as the specification words it returns the value.
\<close>

theorem getCookie_misses_value:
  "getCookie (Some ''arkoseTokenBackup=1; arkoseToken=abc'') ''arkoseToken'' = Undefined
   \<and> cookieAfterFirstMatch (Some ''arkoseTokenBackup=1; arkoseToken=abc'') ''arkoseToken''
       = Some ''abc''
   \<and> getCookie (Some ''k=a k=b'') ''k'' = JStr ''a ''
   \<and> cookieAfterFirstMatch (Some ''k=a k=b'') ''k'' = Some ''a k=b''"
proof -
  have a: "getCookie (Some ''arkoseTokenBackup=1; arkoseToken=abc'') ''arkoseToken''
             = Undefined"
    by code_simp
  have b: "cookieAfterFirstMatch (Some ''arkoseTokenBackup=1; arkoseToken=abc'') ''arkoseToken''
             = Some ''abc''"
    by code_simp
  have c: "getCookie (Some ''k=a k=b'') ''k'' = JStr ''a ''"
    by (simp add: getCookie_def jsSplit_def)
  have d: "cookieAfterFirstMatch (Some ''k=a k=b'') ''k'' = Some ''a k=b''"
    by (simp add: cookieAfterFirstMatch_def jsSplit_def)
  show ?thesis by (rule conjI [OF a conjI [OF b conjI [OF c d]]])
qed

section \<open>Facts about the handler\<close>

lemma fetchAndCheck_eq:
  "fetchAndCheck p c req tr =
     (case network p tr (Forward req) of
        Rejected \<Rightarrow> Inl NetworkError
      | Resolved r \<Rightarrow> if status r = 302 then Inr (Passthrough r) else injectArkose p c r Undefined,
      tr @ [Forward req])"
  by (simp add: fetchAndCheck_def fetch_def checkResponse_def split: fetched.splits)

lemma originFetches_simps [simp]:
  "originFetches [] = 0"
  "originFetches (c # tr) = (if isOriginCall c then 1 else 0) + originFetches tr"
  "originFetches (tr @ tr') = originFetches tr + originFetches tr'"
  by (simp_all add: originFetches_def)

text \<open>Whenever the retry chain returns, it has made no origin fetch.\<close>

lemma verifyArkoseToken_originFetches:
  assumes "verifyArkoseToken net token key sub m cur tr = Some y"
  shows "originFetches (snd y) = originFetches tr"
proof (rule verifyArkoseToken.raw_induct
    [where P = "\<lambda>net' t k s m' cur' tr' y'. originFetches (snd y') = originFetches tr'",
      OF _ assms])
  fix f :: "network \<Rightarrow> jsval \<Rightarrow> jsval \<Rightarrow> string \<Rightarrow> number \<Rightarrow> number \<Rightarrow> call list
              \<Rightarrow> (verifyStatus \<times> call list) option"
  fix net token key sub m cur tr y
  assume IH: "\<And>net' t k s m' cur' tr' y'. f net' t k s m' cur' tr' = Some y' \<Longrightarrow>
        originFetches (snd y') = originFetches tr'"
  assume step: "(case verifyAttempt net token key sub tr of
      (Inl e, tr') \<Rightarrow>
        (case checkArkoseStatus net tr' of
           (healthy, tr'') \<Rightarrow>
             if healthy then
               if cur = m
               then Some (\<lparr>verified = False, arkoseStatus = healthy\<rparr>, tr'')
               else f net token key sub m (addOne cur) tr''
             else Some (\<lparr>verified = False, arkoseStatus = healthy\<rparr>, tr''))
    | (Inr result, tr') \<Rightarrow> Some (result, tr')) = Some y"
  let ?tr1 = "tr @ [verifyCall token key sub]"
  show "originFetches (snd y) = originFetches tr"
  proof (cases rule: verifyAttempt_cases [of net token key sub tr])
    case (ok r)
    with step show ?thesis by auto
  next
    case (failed e)
    show ?thesis
    proof (cases "fst (checkArkoseStatus net ?tr1) \<and> cur \<noteq> m")
      case True
      with step failed have "f net token key sub m (addOne cur) (?tr1 @ [Get statusUrl]) = Some y"
        by (subst (asm) checkArkoseStatus_eq) simp
      from IH [OF this] show ?thesis by simp
    next
      case False
      with step failed have "snd y = ?tr1 @ [Get statusUrl]"
        by (subst (asm) checkArkoseStatus_eq) (auto split: if_splits)
      then show ?thesis by simp
    qed
  qed
qed

lemma no_token_iff:
  "(\<not> (truthy v \<and> v \<noteq> JStr [])) = (\<not> truthy v)"
  by (cases v) simp_all

text \<open>
  A request other than GET ends in \<open>handleFailure\<close>, with no origin fetch, or in exactly
  one origin fetch, its last call, whose response goes through \<open>checkResponse\<close>.
\<close>

lemma handleRequest_other_method:
  assumes "httpMethod req \<noteq> ''GET''" and "handleRequest p c req tr = Some (res, tr')"
  shows "(res = handleFailure p (errorUrl c) \<and> originFetches tr' = originFetches tr)
       \<or> (\<exists>tr0. originFetches tr0 = originFetches tr \<and> (res, tr') = fetchAndCheck p c req tr0)"
proof (cases "truthy (getCookie (cookieHeader req) (arkoseCookieName c))
              \<and> getCookie (cookieHeader req) (arkoseCookieName c) \<noteq> JStr []")
  case False
  with assms show ?thesis
    by (auto simp: handleRequest_def Let_def split: if_splits)
next
  case True
  let ?v = "verifyArkoseToken (network p) (getCookie (cookieHeader req) (arkoseCookieName c))
              (privateKey c) (verifySubdomain c) (verifyMaxRetryCount c) (Num 0) tr"
  from assms True obtain vs tr1 where v: "?v = Some (vs, tr1)"
    by (cases ?v) (auto simp: handleRequest_def Let_def)
  from verifyArkoseToken_originFetches [OF v] have o: "originFetches tr1 = originFetches tr"
    by simp
  from assms True v
  have "(res = handleFailure p (errorUrl c) \<and> tr' = tr1)
        \<or> (res, tr') = fetchAndCheck p c req tr1"
    by (auto simp: handleRequest_def Let_def split: if_splits)
  with o show ?thesis by auto
qed

lemma parseNumber_small:
  "parseNumber (Some ''2'') = Num 2" "parseNumber (Some ''60000'') = Num 60000"
  by (simp_all add: parseNumber_def parseInt10_def isWhiteSpace_def isDigit_def digitValue_def
        toNumber_safe)

lemma parseBoolean_values:
  "parseBoolean (Some ''true'')" "\<not> parseBoolean None"
  by (simp_all add: parseBoolean_def toLowerCase_def)

lemma readEnv_workerEnv: "readEnv p workerEnv = Inr (workerConfig p)"
  by (simp add: readEnv_def workerEnv_def workerConfig_def orDefault_def orUndefined_def
        parseNumber_small parseBoolean_values)

lemma fetchHandler_workerEnv:
  "fetchHandler p req workerEnv tr = handleRequest p (workerConfig p) req tr"
  by (simp add: fetchHandler_def readEnv_workerEnv)

lemma workerConfig_fields [simp]:
  "privateKey (workerConfig p) = JStr ''PRIVATE''"
  "verifySubdomain (workerConfig p) = ''verify-api''"
  "errorUrl (workerConfig p) = JStr ''https://example.com/error''"
  "arkoseCookieName (workerConfig p) = ''arkoseToken''"
  "failOpen (workerConfig p)"
  "verifyMaxRetryCount (workerConfig p) = Num 2"
  "\<not> usingDX (workerConfig p)"
  "tokenEnforcement (workerConfig p)"
  by (simp_all add: workerConfig_def)

lemma examplePlatform_fields [simp]:
  "network (examplePlatform net) = net"
  "parseUrl (examplePlatform net) u = (if u = ''https://example.com/error'' then Some u else None)"
  by (simp_all add: examplePlatform_def)

lemma handleRequest_token:
  assumes "httpMethod req \<noteq> ''GET''"
    and "getCookie (cookieHeader req) (arkoseCookieName c) = JStr token" and "token \<noteq> []"
    and "verifyArkoseToken (network p) (JStr token) (privateKey c) (verifySubdomain c)
           (verifyMaxRetryCount c) (Num 0) tr = Some (vs, tr1)"
  shows "handleRequest p c req tr =
     Some (case decide (verified vs) (arkoseStatus vs) (failOpen c) (tokenEnforcement c) of
             FetchOrigin \<Rightarrow> fetchAndCheck p c req tr1
           | RedirectToErrorUrl \<Rightarrow> (handleFailure p (errorUrl c), tr1))"
  using assms by (simp add: handleRequest_def decide_def)

lemma handleRequest_no_token:
  assumes "httpMethod req \<noteq> ''GET''"
    and "\<not> truthy (getCookie (cookieHeader req) (arkoseCookieName c))"
    and "tokenEnforcement c"
  shows "handleRequest p c req tr = Some (handleFailure p (errorUrl c), tr)"
  using assms by (simp add: handleRequest_def)

section \<open>The decision on a request with a token\<close>

text \<open>
  Claim C4, for an environment in which secretKeyBase64 is set. For every request other
  than GET whose challenge-token cookie is a non-empty string, once the verification
  chain has returned its outcome, the handler does exactly what the decision table says:
  if verified, or if the platform is unhealthy and failOpen is configured, or if
  tokenEnforcement is off, it fetches the origin once and applies the injection policy (a
  302 response is passed through, any other goes to the injector); otherwise it fetches
  nothing and calls \<open>Response.redirect(errorUrl, 301)\<close>, which is the redirect to errorUrl
  with status 301 if errorUrl is an absolute URL and a thrown TypeError if it is not.
\<close>

theorem token_decision:
  assumes "httpMethod req \<noteq> ''GET''"
    and "readEnv p e = Inr c"
    and "getCookie (cookieHeader req) (arkoseCookieName c) = JStr token" and "token \<noteq> []"
    and "verifyArkoseToken (network p) (JStr token) (privateKey c) (verifySubdomain c)
           (verifyMaxRetryCount c) (Num 0) tr = Some (vs, tr1)"
  shows "fetchHandler p req e tr =
     Some (case decide (verified vs) (arkoseStatus vs) (failOpen c) (tokenEnforcement c) of
             FetchOrigin \<Rightarrow>
               (case network p tr1 (Forward req) of
                  Rejected \<Rightarrow> Inl NetworkError
                | Resolved r \<Rightarrow>
                    if status r = 302 then Inr (Passthrough r)
                    else injectArkose p c r Undefined,
                tr1 @ [Forward req])
           | RedirectToErrorUrl \<Rightarrow>
               (case parseUrl p (toStringJs p (errorUrl c)) of
                  None \<Rightarrow> Inl TypeError
                | Some location \<Rightarrow> Inr (Redirect location 301),
                tr1))"
proof -
  have "fetchHandler p req e tr = handleRequest p c req tr"
    by (simp add: fetchHandler_def assms(2))
  also note handleRequest_token [OF assms(1,3,4,5)]
  finally show ?thesis
    by (simp add: fetchAndCheck_eq handleFailure_def split: decision.splits)
qed

theorem token_decision_witness:
  "fetchHandler (examplePlatform (originNet (pageResponse 302 []) (solvedJson False)))
      (postRequest (Some ''arkoseToken=abc'')) workerEnv []
     = Some (Inr (Redirect ''https://example.com/error'' 301),
             [verifyCall (JStr ''abc'') (JStr ''PRIVATE'') ''verify-api''])
   \<and> fetchHandler (examplePlatform (originNet (pageResponse 302 []) (solvedJson True)))
      (postRequest (Some ''arkoseToken=abc'')) workerEnv []
     = Some (Inr (Passthrough (pageResponse 302 [])),
             [verifyCall (JStr ''abc'') (JStr ''PRIVATE'') ''verify-api'',
              Forward (postRequest (Some ''arkoseToken=abc''))])"
proof -
  let ?req = "postRequest (Some ''arkoseToken=abc'')"
  let ?p = "\<lambda>b. examplePlatform (originNet (pageResponse 302 []) (solvedJson b))"
  have h1: "httpMethod ?req \<noteq> ''GET''" by (simp add: postRequest_def)
  have h2: "\<And>b. readEnv (?p b) workerEnv = Inr (workerConfig (?p b))"
    by (rule readEnv_workerEnv)
  have h3: "\<And>b. getCookie (cookieHeader ?req) (arkoseCookieName (workerConfig (?p b)))
              = JStr ''abc''"
    by (simp add: postRequest_def getCookie_def jsSplit_def)
  have h4: "''abc'' \<noteq> []" by simp
  have att: "\<And>b. verifyAttempt (originNet (pageResponse 302 []) (solvedJson b)) (JStr ''abc'')
               (JStr ''PRIVATE'') ''verify-api'' []
             = (Inr \<lparr>verified = b, arkoseStatus = True\<rparr>,
                [] @ [verifyCall (JStr ''abc'') (JStr ''PRIVATE'') ''verify-api''])"
    by (simp add: verifyAttempt_def fetch_def originNet_def verifyCall_def jsonResponse_def
          solvedJson_def)
  have h5: "\<And>b. verifyArkoseToken (network (?p b)) (JStr ''abc'')
               (privateKey (workerConfig (?p b))) (verifySubdomain (workerConfig (?p b)))
               (verifyMaxRetryCount (workerConfig (?p b))) (Num 0) []
             = Some (\<lparr>verified = b, arkoseStatus = True\<rparr>,
                     [verifyCall (JStr ''abc'') (JStr ''PRIVATE'') ''verify-api''])"
    using verifyArkoseToken_good_attempt [OF att] by simp
  have a: "fetchHandler (?p False) ?req workerEnv []
     = Some (Inr (Redirect ''https://example.com/error'' 301),
             [verifyCall (JStr ''abc'') (JStr ''PRIVATE'') ''verify-api''])"
    using token_decision [OF h1 h2 h3 h4 h5, of False]
    by (simp add: decide_def)
  have b: "fetchHandler (?p True) ?req workerEnv []
     = Some (Inr (Passthrough (pageResponse 302 [])),
             [verifyCall (JStr ''abc'') (JStr ''PRIVATE'') ''verify-api'', Forward ?req])"
    using token_decision [OF h1 h2 h3 h4 h5, of True]
    by (simp add: decide_def originNet_def pageResponse_def)
  from a b show ?thesis by (rule conjI)
qed

text \<open>
  With secretKeyBase64 not set, the handler throws before it looks at the request, also
  for a token that verifies. With the relative errorUrl \<open>/error\<close> and a token that does
  not verify, the handler throws where the table says redirect.
\<close>

theorem token_decision_throws_counterexample:
  "fetchHandler (examplePlatform (originNet (pageResponse 200 []) (solvedJson True)))
      (postRequest (Some ''arkoseToken=abc'')) (workerEnv\<lparr>env_secretKeyBase64 := None\<rparr>) []
     = Some (Inl TypeError, [])
   \<and> fetchHandler (examplePlatform (originNet (pageResponse 200 []) (solvedJson False)))
      (postRequest (Some ''arkoseToken=abc'')) (workerEnv\<lparr>env_errorUrl := Some ''/error''\<rparr>) []
     = Some (Inl TypeError, [verifyCall (JStr ''abc'') (JStr ''PRIVATE'') ''verify-api''])"
proof -
  let ?req = "postRequest (Some ''arkoseToken=abc'')"
  let ?p = "examplePlatform (originNet (pageResponse 200 []) (solvedJson False))"
  let ?c = "(workerConfig ?p)\<lparr>errorUrl := JStr ''/error''\<rparr>"
  have a: "fetchHandler (examplePlatform (originNet (pageResponse 200 []) (solvedJson True)))
      ?req (workerEnv\<lparr>env_secretKeyBase64 := None\<rparr>) [] = Some (Inl TypeError, [])"
    by (simp add: fetchHandler_def readEnv_def)
  have r: "readEnv ?p (workerEnv\<lparr>env_errorUrl := Some ''/error''\<rparr>) = Inr ?c"
    by (simp add: readEnv_def workerEnv_def workerConfig_def orDefault_def orUndefined_def
          parseNumber_small parseBoolean_values)
  have h1: "httpMethod ?req \<noteq> ''GET''" by (simp add: postRequest_def)
  have h3: "getCookie (cookieHeader ?req) (arkoseCookieName ?c) = JStr ''abc''"
    by (simp add: postRequest_def getCookie_def jsSplit_def)
  have h4: "''abc'' \<noteq> []" by simp
  have att: "verifyAttempt (originNet (pageResponse 200 []) (solvedJson False)) (JStr ''abc'')
               (JStr ''PRIVATE'') ''verify-api'' []
             = (Inr \<lparr>verified = False, arkoseStatus = True\<rparr>,
                [] @ [verifyCall (JStr ''abc'') (JStr ''PRIVATE'') ''verify-api''])"
    by (simp add: verifyAttempt_def fetch_def originNet_def verifyCall_def jsonResponse_def
          solvedJson_def)
  have h5: "verifyArkoseToken (network ?p) (JStr ''abc'') (privateKey ?c) (verifySubdomain ?c)
               (verifyMaxRetryCount ?c) (Num 0) []
             = Some (\<lparr>verified = False, arkoseStatus = True\<rparr>,
                     [verifyCall (JStr ''abc'') (JStr ''PRIVATE'') ''verify-api''])"
    using verifyArkoseToken_good_attempt [OF att] by simp
  have b: "fetchHandler ?p ?req (workerEnv\<lparr>env_errorUrl := Some ''/error''\<rparr>) []
     = Some (Inl TypeError, [verifyCall (JStr ''abc'') (JStr ''PRIVATE'') ''verify-api''])"
    unfolding fetchHandler_def r
    by (simp add: handleRequest_token [OF h1 h3 h4 h5] decide_def handleFailure_def)
  from a b show ?thesis by (rule conjI)
qed

section \<open>No token, enforcement on\<close>

text \<open>
  Claim C5, for an environment in which secretKeyBase64 is set and errorUrl is an absolute
  URL. For every request other than GET whose cookie header yields no challenge token
  (the extractor returns null, undefined or the empty string), when tokenEnforcement is
  true the handler returns the redirect to errorUrl (in its serialised form) with status
  301, and its trace of outbound calls is unchanged: no origin fetch, no verify call, no
  health check.
\<close>

theorem no_token_redirect:
  assumes "httpMethod req \<noteq> ''GET''"
    and "readEnv p e = Inr c"
    and "getCookie (cookieHeader req) (arkoseCookieName c) = JNull
         \<or> getCookie (cookieHeader req) (arkoseCookieName c) = Undefined
         \<or> getCookie (cookieHeader req) (arkoseCookieName c) = JStr []"
    and "tokenEnforcement c"
    and "parseUrl p (toStringJs p (errorUrl c)) = Some location"
  shows "fetchHandler p req e tr = Some (Inr (Redirect location 301), tr)"
proof -
  from assms(3) have "\<not> truthy (getCookie (cookieHeader req) (arkoseCookieName c))"
    by auto
  from handleRequest_no_token [OF assms(1) this assms(4)] assms(5) show ?thesis
    by (simp add: fetchHandler_def assms(2) handleFailure_def)
qed

theorem no_token_redirect_witness:
  "fetchHandler (examplePlatform verifyDownNet) (postRequest None) workerEnv []
     = Some (Inr (Redirect ''https://example.com/error'' 301), [])
   \<and> fetchHandler (examplePlatform verifyDownNet) (postRequest (Some ''arkoseToken=''))
       workerEnv []
     = Some (Inr (Redirect ''https://example.com/error'' 301), [])"
proof -
  let ?p = "examplePlatform verifyDownNet"
  have m: "\<And>k. httpMethod (postRequest k) \<noteq> ''GET''" by (simp add: postRequest_def)
  have r: "readEnv ?p workerEnv = Inr (workerConfig ?p)" by (rule readEnv_workerEnv)
  have t: "tokenEnforcement (workerConfig ?p)" by simp
  have u: "parseUrl ?p (toStringJs ?p (errorUrl (workerConfig ?p)))
             = Some ''https://example.com/error''"
    by simp
  have k1: "getCookie (cookieHeader (postRequest None))
              (arkoseCookieName (workerConfig ?p)) = JNull
         \<or> getCookie (cookieHeader (postRequest None))
              (arkoseCookieName (workerConfig ?p)) = Undefined
         \<or> getCookie (cookieHeader (postRequest None))
              (arkoseCookieName (workerConfig ?p)) = JStr []"
    by (simp add: postRequest_def getCookie_def)
  have k2: "getCookie (cookieHeader (postRequest (Some ''arkoseToken='')))
              (arkoseCookieName (workerConfig ?p)) = JNull
         \<or> getCookie (cookieHeader (postRequest (Some ''arkoseToken='')))
              (arkoseCookieName (workerConfig ?p)) = Undefined
         \<or> getCookie (cookieHeader (postRequest (Some ''arkoseToken='')))
              (arkoseCookieName (workerConfig ?p)) = JStr []"
    by (simp add: postRequest_def getCookie_def jsSplit_def)
  from no_token_redirect [OF m r k1 t u, of "[]"]
  have a: "fetchHandler ?p (postRequest None) workerEnv []
     = Some (Inr (Redirect ''https://example.com/error'' 301), [])" .
  from no_token_redirect [OF m r k2 t u, of "[]"]
  have b: "fetchHandler ?p (postRequest (Some ''arkoseToken='')) workerEnv []
     = Some (Inr (Redirect ''https://example.com/error'' 301), [])" .
  from a b show ?thesis by (rule conjI)
qed

text \<open>
  A request without a cookie, tokenEnforcement on: with the relative errorUrl \<open>/error\<close> the
  handler throws a TypeError instead of redirecting, and with secretKeyBase64 not set it
  throws before it reads the cookie.
\<close>

theorem no_token_throws_counterexample:
  "fetchHandler (examplePlatform verifyDownNet) (postRequest None)
      (workerEnv\<lparr>env_errorUrl := Some ''/error''\<rparr>) []
     = Some (Inl TypeError, [])
   \<and> fetchHandler (examplePlatform verifyDownNet) (postRequest None)
      (workerEnv\<lparr>env_secretKeyBase64 := None\<rparr>) []
     = Some (Inl TypeError, [])"
proof -
  let ?p = "examplePlatform verifyDownNet"
  let ?c = "(workerConfig ?p)\<lparr>errorUrl := JStr ''/error''\<rparr>"
  have r: "readEnv ?p (workerEnv\<lparr>env_errorUrl := Some ''/error''\<rparr>) = Inr ?c"
    by (simp add: readEnv_def workerEnv_def workerConfig_def orDefault_def orUndefined_def
          parseNumber_small parseBoolean_values)
  have m: "httpMethod (postRequest None) \<noteq> ''GET''" by (simp add: postRequest_def)
  have k: "\<not> truthy (getCookie (cookieHeader (postRequest None)) (arkoseCookieName ?c))"
    by (simp add: postRequest_def getCookie_def)
  have t: "tokenEnforcement ?c" by simp
  have a: "fetchHandler ?p (postRequest None) (workerEnv\<lparr>env_errorUrl := Some ''/error''\<rparr>) []
     = Some (Inl TypeError, [])"
    unfolding fetchHandler_def r
    by (simp add: handleRequest_no_token [OF m k t] handleFailure_def)
  have b: "fetchHandler ?p (postRequest None) (workerEnv\<lparr>env_secretKeyBase64 := None\<rparr>) []
     = Some (Inl TypeError, [])"
    by (simp add: fetchHandler_def readEnv_def)
  from a b show ?thesis by (rule conjI)
qed

section \<open>Responses with status 302\<close>

text \<open>
  Claim C6, for the paths that go through \<open>checkResponse\<close>. For every request other than
  GET on which the handler returns after fetching the origin: it has fetched the origin
  exactly once, as its last call, and if that response has status 302 the handler returns
  that very response (same status, headers and body), with no script injected.
\<close>

theorem redirect_passthrough_other_methods:
  assumes "httpMethod req \<noteq> ''GET''"
    and "fetchHandler p req e tr = Some (res, tr')"
    and "originFetches tr' \<noteq> originFetches tr"
  shows "\<exists>tr0. tr' = tr0 @ [Forward req] \<and> originFetches tr' = originFetches tr + 1
          \<and> (\<forall>r. network p tr0 (Forward req) = Resolved r \<and> status r = 302
                \<longrightarrow> res = Inr (Passthrough r))"
proof -
  from assms(2,3) obtain c where h: "handleRequest p c req tr = Some (res, tr')"
    by (cases "readEnv p e") (auto simp: fetchHandler_def)
  from handleRequest_other_method [OF assms(1) h] assms(3)
  obtain tr0 where o: "originFetches tr0 = originFetches tr"
    and f: "(res, tr') = fetchAndCheck p c req tr0"
    by auto
  from f have "tr' = tr0 @ [Forward req]" by (simp add: fetchAndCheck_eq)
  moreover from this o have "originFetches tr' = originFetches tr + 1" by simp
  moreover from f have "\<forall>r. network p tr0 (Forward req) = Resolved r \<and> status r = 302
                \<longrightarrow> res = Inr (Passthrough r)"
    by (auto simp: fetchAndCheck_eq)
  ultimately show ?thesis by blast
qed

theorem redirect_passthrough_other_methods_witness:
  "\<exists>tr0. [Forward (postRequest None)] = tr0 @ [Forward (postRequest None)]
     \<and> originFetches [Forward (postRequest None)] = originFetches [] + 1
     \<and> (\<forall>r. network (examplePlatform (originNet (pageResponse 302 []) JNull)) tr0
                (Forward (postRequest None)) = Resolved r \<and> status r = 302
           \<longrightarrow> Inr (Passthrough (pageResponse 302 [])) = (Inr (Passthrough r) :: error + outcome))"
proof -
  let ?p = "examplePlatform (originNet (pageResponse 302 []) JNull)"
  let ?e = "workerEnv\<lparr>env_tokenEnforcement := None\<rparr>"
  let ?c = "(workerConfig ?p)\<lparr>tokenEnforcement := False\<rparr>"
  have c: "readEnv ?p ?e = Inr ?c"
    by (simp add: readEnv_def workerEnv_def workerConfig_def orDefault_def orUndefined_def
          parseNumber_small parseBoolean_values)
  have h1: "httpMethod (postRequest None) \<noteq> ''GET''" by (simp add: postRequest_def)
  have h2: "fetchHandler ?p (postRequest None) ?e []
              = Some (Inr (Passthrough (pageResponse 302 [])), [Forward (postRequest None)])"
    unfolding fetchHandler_def c
    by (simp add: handleRequest_def fetchAndCheck_eq getCookie_def postRequest_def
          originNet_def pageResponse_def)
  have h3: "originFetches [Forward (postRequest None)] \<noteq> originFetches []" by simp
  from redirect_passthrough_other_methods [OF h1 h2 h3] show ?thesis .
qed

text \<open>
  A GET request whose origin answers with status 302: the GET path calls the injector
  directly, so the response is handed to the HTML rewriter with the script.
\<close>

theorem redirect_rewritten_on_get_counterexample:
  "status (pageResponse 302 []) = 302
   \<and> fetchHandler (examplePlatform (originNet (pageResponse 302 []) JNull)) getRequest
       workerEnv []
     = Some (Inr (Rewritten (pageResponse 302 [])
                    (arkoseScript (examplePlatform (originNet (pageResponse 302 []) JNull))
                       (workerConfig (examplePlatform (originNet (pageResponse 302 []) JNull)))
                       Undefined)),
             [Forward getRequest])"
  by (simp add: fetchHandler_workerEnv handleRequest_def fetch_def injectArkose_def
        getRequest_def originNet_def pageResponse_def)

section \<open>Facts about searching\<close>

lemma findFrom_absent:
  "needle \<noteq> [] \<Longrightarrow> \<not> jsIncludes s needle \<Longrightarrow> findFrom needle s i = - 1"
  by (induction s arbitrary: i) simp_all

lemma findFrom_char:
  "findFrom [q] s i =
     (if q \<in> set s then int i + int (length (takeWhile (\<lambda>c. c \<noteq> q) s)) else - 1)"
  by (induction s arbitrary: i) auto

lemma indexOf_quote_found:
  assumes "q \<in> set (drop 22 s)"
  shows "indexOf s [q] 22 = 22 + int (length (takeWhile (\<lambda>c. c \<noteq> q) (drop 22 s)))"
proof -
  from assms have "22 < length s" by (cases "22 < length s") simp_all
  then have "nat (min (max 22 0) (int (length s))) = 22" by simp
  with assms show ?thesis by (simp add: indexOf_def findFrom_char)
qed

lemma indexOf_quote_absent:
  assumes "q \<notin> set (drop 22 s)"
  shows "indexOf s [q] 22 = - 1"
proof (cases "22 \<le> length s")
  case True
  then have "nat (min (max 22 0) (int (length s))) = 22" by simp
  with assms show ?thesis by (simp add: indexOf_def findFrom_char)
next
  case False
  then have "nat (min (max 22 0) (int (length s))) = length s" by simp
  then show ?thesis by (simp add: indexOf_def)
qed

lemma substring_between:
  assumes "22 + k \<le> length s"
  shows "substring s 22 (22 + int k) = take k (drop 22 s)"
proof -
  from assms have "min (max 22 0) (int (length s)) = 22"
    and "min (max (22 + int k) 0) (int (length s)) = 22 + int k"
    by simp_all
  then show ?thesis by (simp add: substring_def Let_def)
qed

lemma substring_swapped: "substring s 22 (- 1) = take 22 s"
proof -
  have "nat (min 22 (int (length s))) = min 22 (length s)" by simp
  then show ?thesis by (simp add: substring_def Let_def min_def)
qed

text \<open>
  The username read out of a body without the marker: the search yields -1, so the text
  taken starts at index 22; it ends in front of the first double quote at or behind index
  22, and without such a quote the two indices are swapped and the first 22 code units of
  the body are taken.
\<close>

lemma usernameOf_without_marker:
  assumes "\<not> jsIncludes originalBody usernameMarker"
  shows "usernameOf originalBody =
     (if CHR 0x22 \<in> set (drop 22 originalBody)
      then takeWhile (\<lambda>c. c \<noteq> CHR 0x22) (drop 22 originalBody)
      else take 22 originalBody)"
proof -
  have ne: "usernameMarker \<noteq> []" by (simp add: usernameMarker_def)
  have pos: "search originalBody usernameMarker = - 1"
    unfolding search_def by (rule findFrom_absent [OF ne assms])
  have q: "''\"'' = [CHR 0x22]" by simp
  show ?thesis
  proof (cases "CHR 0x22 \<in> set (drop 22 originalBody)")
    case True
    let ?tw = "takeWhile (\<lambda>c. c \<noteq> CHR 0x22) (drop 22 originalBody)"
    have "length ?tw \<le> length (drop 22 originalBody)" by (rule length_takeWhile_le)
    moreover from True have "22 < length originalBody"
      by (cases "22 < length originalBody") simp_all
    ultimately have le: "22 + length ?tw \<le> length originalBody" by simp
    have "take (length ?tw) (drop 22 originalBody) = ?tw"
      by (rule takeWhile_eq_take [symmetric])
    with True show ?thesis
      by (simp add: usernameOf_def pos indexOf_quote_found substring_between [OF le])
  next
    case False
    then show ?thesis
      by (simp add: usernameOf_def pos indexOf_quote_absent substring_swapped)
  qed
qed

lemma readEnv_dxEnv: "readEnv p dxEnv = Inr ((workerConfig p)\<lparr>usingDX := True\<rparr>)"
  by (simp add: readEnv_def dxEnv_def workerEnv_def workerConfig_def orDefault_def
        orUndefined_def parseNumber_small parseBoolean_values)

lemma handleRequest_get_dx:
  assumes "httpMethod req = ''GET''" and "usingDX c"
    and "network p tr (Forward req) = Resolved originalResponse"
    and "body originalResponse = Some originalBody"
    and "network p (tr @ [Forward req]) (Forward req) = Resolved res"
  shows "handleRequest p c req tr =
     Some (injectArkose p c res (JStr (usernameOf originalBody)),
           tr @ [Forward req, Forward req])"
  using assms by (simp add: handleRequest_def fetch_def)

section \<open>The identity hint when the marker is missing\<close>

text \<open>
  Claim C10, as the handler computes the hint. For every GET request with data exchange
  enabled whose origin body does not contain the marker \<open>name="username" value="\<close>, the
  failed search yields -1 and the hint passed to the injector is
  \<open>body.substring(22, body.indexOf('"', 22))\<close>: the text from index 22 up to the first
  double quote at or behind index 22 if there is one (empty if the quote is at index 22),
  and otherwise the first 22 code units of the body (all of a shorter body, so empty for
  an empty body). The origin is fetched twice.
\<close>

theorem hint_without_marker:
  assumes "httpMethod req = ''GET''"
    and "readEnv p e = Inr c" and "usingDX c"
    and "network p tr (Forward req) = Resolved originalResponse"
    and "body originalResponse = Some originalBody"
    and "\<not> jsIncludes originalBody usernameMarker"
    and "network p (tr @ [Forward req]) (Forward req) = Resolved res"
  shows "fetchHandler p req e tr =
     Some (injectArkose p c res
             (JStr (if CHR 0x22 \<in> set (drop 22 originalBody)
                    then takeWhile (\<lambda>ch. ch \<noteq> CHR 0x22) (drop 22 originalBody)
                    else take 22 originalBody)),
           tr @ [Forward req, Forward req])"
proof -
  from handleRequest_get_dx [OF assms(1,3,4,5,7)]
  have "handleRequest p c req tr =
     Some (injectArkose p c res (JStr (usernameOf originalBody)),
           tr @ [Forward req, Forward req])" .
  then show ?thesis
    by (simp only: fetchHandler_def assms(2) sum.case usernameOf_without_marker [OF assms(6)])
qed

theorem hint_without_marker_witness:
  "fetchHandler
     (examplePlatform
        (originNet (pageResponse 200 ''<html lang=\"en\"><body class=\"login\">hi</body></html>'')
           JNull))
     getRequest dxEnv []
   = Some (injectArkose
             (examplePlatform
                (originNet
                   (pageResponse 200 ''<html lang=\"en\"><body class=\"login\">hi</body></html>'')
                   JNull))
             ((workerConfig
                (examplePlatform
                   (originNet
                      (pageResponse 200
                         ''<html lang=\"en\"><body class=\"login\">hi</body></html>'')
                      JNull)))\<lparr>usingDX := True\<rparr>)
             (pageResponse 200 ''<html lang=\"en\"><body class=\"login\">hi</body></html>'')
             (JStr ''class=''),
           [Forward getRequest, Forward getRequest])"
proof -
  let ?text = "''<html lang=\"en\"><body class=\"login\">hi</body></html>''"
  let ?page = "pageResponse 200 ?text"
  let ?p = "examplePlatform (originNet ?page JNull)"
  have h1: "httpMethod getRequest = ''GET''" by (simp add: getRequest_def)
  have h2: "readEnv ?p dxEnv = Inr ((workerConfig ?p)\<lparr>usingDX := True\<rparr>)"
    by (rule readEnv_dxEnv)
  have h3: "usingDX ((workerConfig ?p)\<lparr>usingDX := True\<rparr>)" by simp
  have h4: "\<And>t. network ?p t (Forward getRequest) = Resolved ?page"
    by (simp add: originNet_def)
  have h5: "body ?page = Some ?text" by (simp add: pageResponse_def)
  have h6: "\<not> jsIncludes ?text usernameMarker"
    by (simp add: usernameMarker_def)
  have v: "(if CHR 0x22 \<in> set (drop 22 ?text)
            then takeWhile (\<lambda>ch. ch \<noteq> CHR 0x22) (drop 22 ?text)
            else take 22 ?text) = ''class=''"
    by simp
  from hint_without_marker [OF h1 h2 h3 h4 h5 h6 h4, of "[]"] show ?thesis
    unfolding v by simp
qed

text \<open>
  An origin that answers with an empty body: the body has no marker, and the hint passed
  to the injector is the empty string. A page without a double quote behind index 22:
  the hint is the first 22 code units of the page, not text from index 22 on.
\<close>

theorem empty_hint_counterexample:
  "body (pageResponse 200 []) = Some []
   \<and> \<not> jsIncludes [] usernameMarker
   \<and> fetchHandler (examplePlatform (originNet (pageResponse 200 []) JNull)) getRequest dxEnv []
     = Some (injectArkose (examplePlatform (originNet (pageResponse 200 []) JNull))
               ((workerConfig (examplePlatform (originNet (pageResponse 200 []) JNull)))
                  \<lparr>usingDX := True\<rparr>)
               (pageResponse 200 []) (JStr []),
             [Forward getRequest, Forward getRequest])
   \<and> \<not> jsIncludes ''<html><body>no form on this page</body></html>'' usernameMarker
   \<and> usernameOf ''<html><body>no form on this page</body></html>''
       = ''<html><body>no form on''"
proof -
  let ?p = "examplePlatform (originNet (pageResponse 200 []) JNull)"
  let ?c = "(workerConfig ?p)\<lparr>usingDX := True\<rparr>"
  have z: "body (pageResponse 200 []) = Some []" by (simp add: pageResponse_def)
  have a: "\<not> jsIncludes [] usernameMarker" by (simp add: usernameMarker_def)
  have h1: "httpMethod getRequest = ''GET''" by (simp add: getRequest_def)
  have h3: "usingDX ?c" by simp
  have h4: "\<And>t. network ?p t (Forward getRequest) = Resolved (pageResponse 200 [])"
    by (simp add: originNet_def)
  have u: "usernameOf [] = []"
    by (simp add: usernameOf_def search_def indexOf_def substring_def usernameMarker_def)
  have b: "fetchHandler ?p getRequest dxEnv []
     = Some (injectArkose ?p ?c (pageResponse 200 []) (JStr []),
             [Forward getRequest, Forward getRequest])"
    unfolding fetchHandler_def readEnv_dxEnv sum.case
      handleRequest_get_dx [OF h1 h3 h4 z h4, of "[]"] u
    by simp
  have c: "\<not> jsIncludes ''<html><body>no form on this page</body></html>'' usernameMarker"
    by (simp add: usernameMarker_def)
  have d: "usernameOf ''<html><body>no form on this page</body></html>''
             = ''<html><body>no form on''"
    by code_simp
  show ?thesis by (rule conjI [OF z conjI [OF a conjI [OF b conjI [OF c d]]]])
qed

section \<open>The blob without data exchange\<close>

lemma injectArkose_without_dx:
  "\<not> usingDX c \<Longrightarrow>
   injectArkose p c resp username = Inr (Rewritten resp (arkoseScript p c Undefined))"
  by (simp add: injectArkose_def)

lemma fetchAndCheck_Rewritten:
  assumes "\<not> usingDX c" and "fetchAndCheck p c req tr = (Inr (Rewritten r script), tr')"
  shows "script = arkoseScript p c Undefined"
  using assms
  by (auto simp: fetchAndCheck_eq injectArkose_without_dx split: fetched.splits if_splits)

lemma handleFailure_not_Rewritten: "handleFailure p u \<noteq> Inr (Rewritten r script)"
  by (simp add: handleFailure_def split: option.splits)

lemma handleRequest_Rewritten:
  assumes "\<not> usingDX c" and "handleRequest p c req tr = Some (Inr (Rewritten r script), tr')"
  shows "script = arkoseScript p c Undefined"
proof (cases "httpMethod req = ''GET''")
  case True
  with assms show ?thesis
    by (auto simp: handleRequest_def fetch_def injectArkose_without_dx split: fetched.splits)
next
  case False
  from handleRequest_other_method [OF False assms(2)] handleFailure_not_Rewritten
  obtain tr0 where "(Inr (Rewritten r script), tr') = fetchAndCheck p c req tr0"
    by metis
  then show ?thesis using fetchAndCheck_Rewritten [OF assms(1)] by metis
qed

text \<open>
  Claim C9, with the length of the literal put right. With data exchange disabled, on
  every path that injects the script the blob is the empty string, \<open>blob.encodedData\<close> is
  undefined, and the line of the script that configures the enforcement reads
  \<open>blob: "undefined"\<close>: the nine-character string \<open>undefined\<close>, not an empty value and not
  an omitted field. Every rewritten response that the handler returns carries this script.
\<close>

theorem blob_undefined_without_data_exchange:
  assumes "readEnv p e = Inr c" and "\<not> usingDX c"
  shows "injectArkose p c resp username = Inr (Rewritten resp (arkoseScript p c Undefined))
    \<and> arkoseScript p c Undefined =
        joinWith [CHR 0x0A]
          (scriptVariables p c @ scriptForm @ scriptStatusAndError
             @ [''                        blob: \"undefined\"''] @ scriptCallbacks @ scriptLoader)
    \<and> length (toStringJs p Undefined) = 9
    \<and> (\<forall>r script tr'. fetchHandler p req e tr = Some (Inr (Rewritten r script), tr')
          \<longrightarrow> script = arkoseScript p c Undefined)"
proof (intro conjI allI impI)
  show "injectArkose p c resp username = Inr (Rewritten resp (arkoseScript p c Undefined))"
    using assms(2) by (rule injectArkose_without_dx)
next
  show "arkoseScript p c Undefined =
        joinWith [CHR 0x0A]
          (scriptVariables p c @ scriptForm @ scriptStatusAndError
             @ [''                        blob: \"undefined\"''] @ scriptCallbacks @ scriptLoader)"
    by (simp add: arkoseScript_def scriptBlobLine_def)
next
  show "length (toStringJs p Undefined) = 9" by simp
next
  fix r script tr'
  assume "fetchHandler p req e tr = Some (Inr (Rewritten r script), tr')"
  then have "handleRequest p c req tr = Some (Inr (Rewritten r script), tr')"
    by (simp add: fetchHandler_def assms(1))
  from handleRequest_Rewritten [OF assms(2) this]
  show "script = arkoseScript p c Undefined" .
qed

theorem blob_undefined_without_data_exchange_witness:
  "injectArkose (examplePlatform (originNet (pageResponse 200 ''<body></body>'') JNull))
      (workerConfig (examplePlatform (originNet (pageResponse 200 ''<body></body>'') JNull)))
      (pageResponse 200 ''<body></body>'') (JStr [])
     = Inr (Rewritten (pageResponse 200 ''<body></body>'')
              (arkoseScript
                 (examplePlatform (originNet (pageResponse 200 ''<body></body>'') JNull))
                 (workerConfig
                    (examplePlatform (originNet (pageResponse 200 ''<body></body>'') JNull)))
                 Undefined))
   \<and> length (toStringJs (examplePlatform (originNet (pageResponse 200 ''<body></body>'') JNull))
               Undefined) = 9"
proof -
  let ?p = "examplePlatform (originNet (pageResponse 200 ''<body></body>'') JNull)"
  have r: "readEnv ?p workerEnv = Inr (workerConfig ?p)" by (rule readEnv_workerEnv)
  have h: "\<not> usingDX (workerConfig ?p)" by simp
  note t = blob_undefined_without_data_exchange
    [OF r h, of "pageResponse 200 ''<body></body>''" "JStr []"]
  show ?thesis by (rule conjI [OF conjunct1 [OF t] conjunct1 [OF conjunct2 [OF conjunct2 [OF t]]]])
qed

text \<open>
  The literal that the script receives has nine characters, not eight.
\<close>

theorem blob_literal_length_counterexample:
  "injectArkose (examplePlatform verifyDownNet) (workerConfig (examplePlatform verifyDownNet))
      (pageResponse 200 ''<body></body>'') (JStr [])
     = Inr (Rewritten (pageResponse 200 ''<body></body>'')
              (arkoseScript (examplePlatform verifyDownNet)
                 (workerConfig (examplePlatform verifyDownNet)) Undefined))
   \<and> scriptBlobLine (examplePlatform verifyDownNet) Undefined
       = ''                        blob: \"undefined\"''
   \<and> toStringJs (examplePlatform verifyDownNet) Undefined = ''undefined''
   \<and> length (toStringJs (examplePlatform verifyDownNet) Undefined) \<noteq> 8"
  by (simp add: injectArkose_def scriptBlobLine_def)

section \<open>What the handler throws\<close>

lemma dataExchangeHandler_Inr:
  "dataExchangeHandler p k username = Inr blob \<Longrightarrow> \<exists>s. blob = JObj [(''encodedData'', JStr s)]"
  by (auto simp: dataExchangeHandler_def Let_def split: sum.splits prod.splits)

lemma injectArkose_returns:
  assumes "usingDX c \<longrightarrow> (\<forall>username. \<exists>blob. dataExchangeHandler p (secretKey c) username = Inr blob)"
  shows "\<exists>script. injectArkose p c r username = Inr (Rewritten r script)"
proof (cases "usingDX c")
  case False
  then show ?thesis by (simp add: injectArkose_without_dx)
next
  case True
  with assms obtain blob where b: "dataExchangeHandler p (secretKey c) username = Inr blob"
    by blast
  from dataExchangeHandler_Inr [OF b] obtain s where "blob = JObj [(''encodedData'', JStr s)]"
    by blast
  with True b show ?thesis by (simp add: injectArkose_def)
qed

lemma fetchAndCheck_returns:
  assumes "\<forall>t. \<exists>r b. network p t (Forward req) = Resolved r \<and> body r = Some b"
    and "usingDX c \<longrightarrow> (\<forall>username. \<exists>blob. dataExchangeHandler p (secretKey c) username = Inr blob)"
  shows "\<exists>r. network p tr (Forward req) = Resolved r
          \<and> (fetchAndCheck p c req tr = (Inr (Passthrough r), tr @ [Forward req])
              \<or> (\<exists>script. fetchAndCheck p c req tr = (Inr (Rewritten r script), tr @ [Forward req])))"
proof -
  from assms(1) obtain r where r: "network p tr (Forward req) = Resolved r" by blast
  from injectArkose_returns [OF assms(2), of r Undefined]
  obtain script where "injectArkose p c r Undefined = Inr (Rewritten r script)" by blast
  with r show ?thesis by (auto simp: fetchAndCheck_eq)
qed

lemma handleRequest_never_returns:
  assumes "httpMethod req \<noteq> ''GET''"
    and "getCookie (cookieHeader req) (arkoseCookieName c) = JStr token" and "token \<noteq> []"
    and "verifyArkoseToken (network p) (JStr token) (privateKey c) (verifySubdomain c)
           (verifyMaxRetryCount c) (Num 0) tr = None"
  shows "handleRequest p c req tr = None"
  using assms by (simp add: handleRequest_def)

text \<open>
  Claim C8, for what the handler absorbs. For every request and every environment in
  which secretKeyBase64 is set, errorUrl is an absolute URL and the verify retry ceiling
  is an integer from 0 to \<open>2^53\<close>: if every fetch of the origin resolves with a readable
  body and, with data exchange enabled, the encryption of the blob succeeds, then the
  handler returns to its caller without throwing, whatever the verify endpoint and the
  status page do (every transport and parse failure on those calls is absorbed); the
  result is an origin response, as it came or rewritten, or the redirect to errorUrl.
\<close>

theorem handler_absorbs_verification_failures:
  assumes "readEnv p e = Inr c"
    and "verifyMaxRetryCount c = Num m" and "0 \<le> m" and "m \<le> 2 ^ 53"
    and "parseUrl p (toStringJs p (errorUrl c)) = Some location"
    and "\<forall>t. \<exists>r b. network p t (Forward req) = Resolved r \<and> body r = Some b"
    and "usingDX c \<longrightarrow> (\<forall>username. \<exists>blob. dataExchangeHandler p (secretKey c) username = Inr blob)"
  shows "\<exists>out tr'. fetchHandler p req e tr = Some (Inr out, tr')
          \<and> (out = Redirect location 301
              \<or> (\<exists>t r. network p t (Forward req) = Resolved r
                    \<and> (out = Passthrough r \<or> (\<exists>script. out = Rewritten r script))))"
proof -
  note fc = fetchAndCheck_returns [OF assms(6,7)]
  have hf: "handleFailure p (errorUrl c) = Inr (Redirect location 301)"
    by (simp add: handleFailure_def assms(5))
  have goal: "\<exists>out tr'. handleRequest p c req tr = Some (Inr out, tr')
          \<and> (out = Redirect location 301
              \<or> (\<exists>t r. network p t (Forward req) = Resolved r
                    \<and> (out = Passthrough r \<or> (\<exists>script. out = Rewritten r script))))"
  proof (cases "httpMethod req = ''GET''")
    case True
    from assms(6) obtain r1 b1 where r1: "network p tr (Forward req) = Resolved r1"
      and b1: "body r1 = Some b1" by blast
    from assms(6) obtain r2 where r2: "network p (tr @ [Forward req]) (Forward req) = Resolved r2"
      by blast
    show ?thesis
    proof (cases "usingDX c")
      case dx: True
      from injectArkose_returns [OF assms(7), of r2 "JStr (usernameOf b1)"]
      obtain script where
        "injectArkose p c r2 (JStr (usernameOf b1)) = Inr (Rewritten r2 script)"
        by blast
      with handleRequest_get_dx [OF True dx r1 b1 r2] r2 show ?thesis by auto
    next
      case False
      with True r1 have "handleRequest p c req tr
          = Some (Inr (Rewritten r1 (arkoseScript p c Undefined)), tr @ [Forward req])"
        by (simp add: handleRequest_def fetch_def injectArkose_without_dx)
      with r1 show ?thesis by auto
    qed
  next
    case False
    let ?tok = "getCookie (cookieHeader req) (arkoseCookieName c)"
    show ?thesis
    proof (cases "truthy ?tok \<and> ?tok \<noteq> JStr []")
      case noTok: False
      show ?thesis
      proof (cases "tokenEnforcement c")
        case True
        with False noTok have "handleRequest p c req tr = Some (Inr (Redirect location 301), tr)"
          by (auto simp: handleRequest_def hf)
        then show ?thesis by auto
      next
        case off: False
        with False noTok have "handleRequest p c req tr = Some (fetchAndCheck p c req tr)"
          by (auto simp: handleRequest_def)
        with fc [of tr] show ?thesis by auto
      qed
    next
      case tok: True
      have z: "(0::int) \<le> 0" by simp
      from verifyArkoseToken_returns [OF z assms(3,4),
          of "network p" ?tok "privateKey c" "verifySubdomain c" tr]
      obtain vs tr1 where v: "verifyArkoseToken (network p) ?tok (privateKey c)
          (verifySubdomain c) (verifyMaxRetryCount c) (Num 0) tr = Some (vs, tr1)"
        unfolding assms(2) by blast
      from False tok v
      have "handleRequest p c req tr = Some (Inr (Redirect location 301), tr1)
            \<or> handleRequest p c req tr = Some (fetchAndCheck p c req tr1)"
        by (simp add: handleRequest_def hf)
      with fc [of tr1] show ?thesis by auto
    qed
  qed
  then show ?thesis by (simp add: fetchHandler_def assms(1))
qed

theorem handler_absorbs_verification_failures_witness:
  "\<exists>out tr'. fetchHandler (examplePlatform (originNet (pageResponse 200 ''<body></body>'') JNull))
                 (postRequest (Some ''arkoseToken=abc'')) workerEnv [] = Some (Inr out, tr')
      \<and> (out = Redirect ''https://example.com/error'' 301
          \<or> (\<exists>t r. network (examplePlatform (originNet (pageResponse 200 ''<body></body>'') JNull))
                      t (Forward (postRequest (Some ''arkoseToken=abc''))) = Resolved r
                \<and> (out = Passthrough r \<or> (\<exists>script. out = Rewritten r script))))"
proof -
  let ?p = "examplePlatform (originNet (pageResponse 200 ''<body></body>'') JNull)"
  have h1: "readEnv ?p workerEnv = Inr (workerConfig ?p)" by (rule readEnv_workerEnv)
  have h2: "verifyMaxRetryCount (workerConfig ?p) = Num 2" by simp
  have h3: "(0::int) \<le> 2" and h4: "(2::int) \<le> 2 ^ 53" by simp_all
  have h5: "parseUrl ?p (toStringJs ?p (errorUrl (workerConfig ?p)))
              = Some ''https://example.com/error''"
    by simp
  have h6: "\<forall>t. \<exists>r b. network ?p t (Forward (postRequest (Some ''arkoseToken=abc''))) = Resolved r
              \<and> body r = Some b"
    by (simp add: originNet_def pageResponse_def)
  have h7: "usingDX (workerConfig ?p) \<longrightarrow>
      (\<forall>username. \<exists>blob. dataExchangeHandler ?p (secretKey (workerConfig ?p)) username
         = Inr blob)"
    by simp
  from handler_absorbs_verification_failures [OF h1 h2 h3 h4 h5 h6 h7, of "[]"]
  show ?thesis .
qed

text \<open>
  What the handler throws to its caller: the rejection of the origin fetch on a GET
  request; the failure to read the origin's body, and the refusal of the key by Web
  Crypto, with data exchange enabled; the TypeError of the redirect for the relative
  errorUrl \<open>/error\<close>; and the TypeError of the key decoding when secretKeyBase64 is not set.
  With the retry ceiling \<open>"-1"\<close>, a verify endpoint that always throws and a healthy
  platform, the handler never returns.
\<close>

theorem origin_failure_thrown_counterexample:
  "fetchHandler (examplePlatform verifyDownNet) getRequest workerEnv []
     = Some (Inl NetworkError, [Forward getRequest])
   \<and> fetchHandler (examplePlatform (originNet brokenBodyResponse JNull)) getRequest dxEnv []
     = Some (Inl NetworkError, [Forward getRequest])
   \<and> fetchHandler (refusingKeyPlatform (originNet (pageResponse 200 []) JNull)) getRequest dxEnv []
     = Some (Inl OperationError, [Forward getRequest, Forward getRequest])
   \<and> fetchHandler (examplePlatform verifyDownNet) (postRequest None)
       (workerEnv\<lparr>env_errorUrl := Some ''/error''\<rparr>) []
     = Some (Inl TypeError, [])
   \<and> fetchHandler (examplePlatform verifyDownNet) getRequest
       (workerEnv\<lparr>env_secretKeyBase64 := None\<rparr>) []
     = Some (Inl TypeError, [])
   \<and> fetchHandler (examplePlatform verifyDownNet) (postRequest (Some ''arkoseToken=abc''))
       (workerEnv\<lparr>env_verifyMaxRetryCount := Some ''-1''\<rparr>) []
     = None"
proof -
  let ?p = "examplePlatform verifyDownNet"
  have a: "fetchHandler ?p getRequest workerEnv [] = Some (Inl NetworkError, [Forward getRequest])"
    by (simp add: fetchHandler_workerEnv handleRequest_def fetch_def getRequest_def
          verifyDownNet_def)
  have b: "fetchHandler (examplePlatform (originNet brokenBodyResponse JNull)) getRequest dxEnv []
     = Some (Inl NetworkError, [Forward getRequest])"
    by (simp add: fetchHandler_def readEnv_dxEnv handleRequest_def fetch_def getRequest_def
          originNet_def brokenBodyResponse_def)
  have c: "fetchHandler (refusingKeyPlatform (originNet (pageResponse 200 []) JNull))
       getRequest dxEnv []
     = Some (Inl OperationError, [Forward getRequest, Forward getRequest])"
    by (simp add: fetchHandler_def readEnv_dxEnv handleRequest_def fetch_def getRequest_def
          injectArkose_def dataExchangeHandler_def encrypt_def refusingKeyPlatform_def
          originNet_def pageResponse_def)
  let ?c = "(workerConfig ?p)\<lparr>errorUrl := JStr ''/error''\<rparr>"
  have r: "readEnv ?p (workerEnv\<lparr>env_errorUrl := Some ''/error''\<rparr>) = Inr ?c"
    by (simp add: readEnv_def workerEnv_def workerConfig_def orDefault_def orUndefined_def
          parseNumber_small parseBoolean_values)
  have m: "httpMethod (postRequest None) \<noteq> ''GET''" by (simp add: postRequest_def)
  have k: "\<not> truthy (getCookie (cookieHeader (postRequest None)) (arkoseCookieName ?c))"
    by (simp add: postRequest_def getCookie_def)
  have t: "tokenEnforcement ?c" by simp
  have d: "fetchHandler ?p (postRequest None) (workerEnv\<lparr>env_errorUrl := Some ''/error''\<rparr>) []
     = Some (Inl TypeError, [])"
    unfolding fetchHandler_def r
    by (simp add: handleRequest_no_token [OF m k t] handleFailure_def)
  have e: "fetchHandler ?p getRequest (workerEnv\<lparr>env_secretKeyBase64 := None\<rparr>) []
     = Some (Inl TypeError, [])"
    by (simp add: fetchHandler_def readEnv_def)
  let ?n = "(workerConfig ?p)\<lparr>verifyMaxRetryCount := Num (- 1)\<rparr>"
  have n: "parseNumber (Some ''-1'') = Num (- 1)"
    by (simp add: parseNumber_def parseInt10_def isWhiteSpace_def isDigit_def digitValue_def
          toNumber_safe)
  have rn: "readEnv ?p (workerEnv\<lparr>env_verifyMaxRetryCount := Some ''-1''\<rparr>) = Inr ?n"
    by (simp add: readEnv_def workerEnv_def workerConfig_def orDefault_def orUndefined_def
          parseNumber_small parseBoolean_values n)
  have z: "retryCount (Num 0)" and nz: "\<not> retryCount (Num (- 1))"
    by (simp_all add: retryCount_def)
  have g: "getCookie (cookieHeader (postRequest (Some ''arkoseToken=abc''))) (arkoseCookieName ?n)
             = JStr ''abc''"
    by (simp add: postRequest_def getCookie_def jsSplit_def)
  have dv: "verifyArkoseToken (network ?p) (JStr ''abc'') (privateKey ?n) (verifySubdomain ?n)
              (verifyMaxRetryCount ?n) (Num 0) [] = None"
    using verifyArkoseToken_diverges [OF verifyDownNet_down verifyDownNet_up z nz] by simp
  have pm: "httpMethod (postRequest (Some ''arkoseToken=abc'')) \<noteq> ''GET''"
    by (simp add: postRequest_def)
  have ne: "''abc'' \<noteq> []" by simp
  have f: "fetchHandler ?p (postRequest (Some ''arkoseToken=abc''))
       (workerEnv\<lparr>env_verifyMaxRetryCount := Some ''-1''\<rparr>) [] = None"
    unfolding fetchHandler_def rn
    by (simp add: handleRequest_never_returns [OF pm g ne dv])
  show ?thesis
    by (rule conjI [OF a conjI [OF b conjI [OF c conjI [OF d conjI [OF e f]]]]])
qed

end
